theory Spec2Isabelle
  imports Complex_Main "HOL-Library.AList"
begin

section \<open>Python values\<close>

text \<open>
  The values \<^verbatim>\<open>json.loads\<close> produces: \<^verbatim>\<open>None\<close>, \<^verbatim>\<open>bool\<close>, \<^verbatim>\<open>int\<close>,
  \<^verbatim>\<open>float\<close>, \<^verbatim>\<open>str\<close>, \<^verbatim>\<open>list\<close> and \<^verbatim>\<open>dict\<close>. A dict is the list of its
  items in insertion order; its keys are strings and are looked up with \<^const>\<open>map_of\<close>.
  A Python \<^verbatim>\<open>str\<close> is a \<^typ>\<open>string\<close>: the model covers the texts whose code points
  are below 256, where one \<^typ>\<open>char\<close> is one code point. A float is read as the real
  number it denotes (only its truth value is ever used).
\<close>

datatype json =
    JNull
  | JBool bool
  | JInt int
  | JFloat real
  | JStr string
  | JArr "json list"
  | JObj "(string \<times> json) list"

text \<open>
  The exceptions the modelled code can meet. \<^verbatim>\<open>json.JSONDecodeError\<close> and pydantic's
  \<^verbatim>\<open>ValidationError\<close> are subclasses of \<^verbatim>\<open>ValueError\<close>, \<^verbatim>\<open>UnboundLocalError\<close>
  is a subclass of \<^verbatim>\<open>NameError\<close>; all of them are subclasses of \<^verbatim>\<open>Exception\<close>.
  \<open>OtherError\<close> stands for any other exception of a collaborator (transport, service).
\<close>

datatype exn =
    ValueError string
  | JSONDecodeError
  | ValidationError
  | KeyError string
  | TypeError
  | AttributeError
  | UnboundLocalError string
  | OverflowError
  | RecursionError
  | OtherError string

fun isinstance_ValueError :: "exn \<Rightarrow> bool" where
  "isinstance_ValueError (ValueError m) = True"
| "isinstance_ValueError JSONDecodeError = True"
| "isinstance_ValueError ValidationError = True"
| "isinstance_ValueError e = False"

fun isinstance_KeyError :: "exn \<Rightarrow> bool" where
  "isinstance_KeyError (KeyError k) = True"
| "isinstance_KeyError e = False"

fun isinstance_JSONDecodeError :: "exn \<Rightarrow> bool" where
  "isinstance_JSONDecodeError JSONDecodeError = True"
| "isinstance_JSONDecodeError e = False"

text \<open>Sequencing of two steps of which the first may raise.\<close>

fun and_then :: "exn + 'a \<Rightarrow> ('a \<Rightarrow> exn + 'b) \<Rightarrow> exn + 'b" where
  "and_then (Inl e) f = Inl e"
| "and_then (Inr x) f = f x"

section \<open>Structured-response extractor (\<^verbatim>\<open>llm_processor.py\<close>)\<close>

text \<open>
  \<^verbatim>\<open>json.loads\<close> belongs to the Python library, not to the repository: it is the
  parameter \<open>loads\<close>, which gives the parsed value or the exception raised. On a text
  that is not JSON that exception is \<^verbatim>\<open>JSONDecodeError\<close>; it can be another one
  (\<^verbatim>\<open>RecursionError\<close> on a deeply nested text, a plain \<^verbatim>\<open>ValueError\<close> on an integer
  of more digits than the interpreter converts). A table of the values it takes on a few
  texts, with \<^verbatim>\<open>JSONDecodeError\<close> on every other text, is \<open>json_loads_table\<close>.
\<close>

type_synonym json_loads = "string \<Rightarrow> exn + json"

definition json_loads_table :: "(string \<times> json) list \<Rightarrow> json_loads" where
  "json_loads_table tbl s = (case map_of tbl s of Some v \<Rightarrow> Inr v | None \<Rightarrow> Inl JSONDecodeError)"

text \<open>\<^verbatim>\<open>text.find(c)\<close>: the index of the first occurrence, \<open>None\<close> for Python's \<open>-1\<close>.\<close>

fun str_find :: "char \<Rightarrow> string \<Rightarrow> nat option" where
  "str_find c [] = None"
| "str_find c (x # xs) = (if x = c then Some 0 else map_option Suc (str_find c xs))"

text \<open>
  The loop \<^verbatim>\<open>for i in range(start, len(text))\<close> of \<^verbatim>\<open>extract_first_json_block\<close>, at
  index \<open>i\<close> with the counter \<open>brace_count\<close>. The first component of the result lists
  the arguments \<^verbatim>\<open>json.loads\<close> was called with, the second is what the function
  returns or raises. \<^verbatim>\<open>except json.JSONDecodeError\<close> catches that exception only: it
  leaves the loop (\<^verbatim>\<open>break\<close>) and the final \<^verbatim>\<open>raise\<close> follows. Any other exception
  of \<^verbatim>\<open>json.loads\<close> leaves the function as it is.
\<close>

function scan_braces ::
  "json_loads \<Rightarrow> string \<Rightarrow> nat \<Rightarrow> nat \<Rightarrow> int \<Rightarrow> string list \<times> (exn + json)" where
  "scan_braces loads text start i brace_count =
     (if i < length text then
        (if text ! i = CHR ''{'' then scan_braces loads text start (i + 1) (brace_count + 1)
         else if text ! i = CHR ''}'' then
           (if brace_count - 1 = 0 then
              (case loads (take (i + 1 - start) (drop start text)) of
                 Inr v \<Rightarrow> ([take (i + 1 - start) (drop start text)], Inr v)
               | Inl e \<Rightarrow>
                   ([take (i + 1 - start) (drop start text)],
                    if isinstance_JSONDecodeError e
                    then Inl (ValueError ''No valid JSON object found in response.'')
                    else Inl e))
            else scan_braces loads text start (i + 1) (brace_count - 1))
         else scan_braces loads text start (i + 1) brace_count)
      else ([], Inl (ValueError ''No valid JSON object found in response.'')))"
  by pat_completeness auto
termination
  by (relation "measure (\<lambda>(loads, text, start, i, brace_count). length text - i)") auto

declare scan_braces.simps [simp del]

definition extract_traced :: "json_loads \<Rightarrow> string \<Rightarrow> string list \<times> (exn + json)" where
  "extract_traced loads text =
     (case str_find (CHR ''{'') text of
        None \<Rightarrow> ([], Inl (ValueError ''No JSON object found in response.''))
      | Some start \<Rightarrow> scan_braces loads text start start 0)"

definition extract_first_json_block :: "json_loads \<Rightarrow> string \<Rightarrow> exn + json" where
  "extract_first_json_block loads text = snd (extract_traced loads text)"

definition loads_calls :: "json_loads \<Rightarrow> string \<Rightarrow> string list" where
  "loads_calls loads text = fst (extract_traced loads text)"

text \<open>
  The words of the specification, for comparison with the loop: the brace depth of a text
  is the number of its \<^verbatim>\<open>{\<close> minus the number of its \<^verbatim>\<open>}\<close>, and the first balanced
  block starts at the first \<^verbatim>\<open>{\<close> and ends where the depth is back to zero for the
  first time.
\<close>

fun brace_depth :: "string \<Rightarrow> int" where
  "brace_depth [] = 0"
| "brace_depth (c # cs) =
     (if c = CHR ''{'' then 1 else if c = CHR ''}'' then - 1 else 0) + brace_depth cs"

fun first_zero :: "int \<Rightarrow> string \<Rightarrow> nat option" where
  "first_zero d [] = None"
| "first_zero d (c # cs) =
     (if d + brace_depth [c] = 0 then Some 1
      else map_option Suc (first_zero (d + brace_depth [c]) cs))"

definition first_balanced_block :: "string \<Rightarrow> string option" where
  "first_balanced_block text =
     (case str_find (CHR ''{'') text of
        None \<Rightarrow> None
      | Some start \<Rightarrow>
          map_option (\<lambda>n. take n (drop start text)) (first_zero 0 (drop start text)))"

text \<open>The single call of \<^verbatim>\<open>json.loads\<close> on a block and what follows from its outcome.\<close>

definition parse_block :: "json_loads \<Rightarrow> string \<Rightarrow> string list \<times> (exn + json)" where
  "parse_block loads b =
     (case loads b of
        Inr v \<Rightarrow> ([b], Inr v)
      | Inl e \<Rightarrow>
          ([b], if isinstance_JSONDecodeError e
                then Inl (ValueError ''No valid JSON object found in response.'')
                else Inl e))"

section \<open>Python operations on parsed values\<close>

text \<open>Truth value of a parsed value, as \<^verbatim>\<open>if v:\<close> and \<^verbatim>\<open>v or d\<close> use it.\<close>

fun truthy :: "json \<Rightarrow> bool" where
  "truthy JNull = False"
| "truthy (JBool b) = b"
| "truthy (JInt n) = (n \<noteq> 0)"
| "truthy (JFloat r) = (r \<noteq> 0)"
| "truthy (JStr s) = (s \<noteq> [])"
| "truthy (JArr xs) = (xs \<noteq> [])"
| "truthy (JObj kvs) = (kvs \<noteq> [])"

definition py_or :: "json \<Rightarrow> json \<Rightarrow> json" where
  "py_or v d = (if truthy v then v else d)"

text \<open>\<^verbatim>\<open>obj.get(key, default)\<close>: only a dict has the method.\<close>

fun py_get :: "json \<Rightarrow> string \<Rightarrow> json \<Rightarrow> exn + json" where
  "py_get (JObj kvs) k d = Inr (case map_of kvs k of Some v \<Rightarrow> v | None \<Rightarrow> d)"
| "py_get v k d = Inl AttributeError"

text \<open>\<^verbatim>\<open>obj[key]\<close> with a string key.\<close>

fun py_getitem :: "json \<Rightarrow> string \<Rightarrow> exn + json" where
  "py_getitem (JObj kvs) k = (case map_of kvs k of Some v \<Rightarrow> Inr v | None \<Rightarrow> Inl (KeyError k))"
| "py_getitem v k = Inl TypeError"

text \<open>
  \<^verbatim>\<open>for x in obj\<close>: a list gives its elements, a string its characters, a dict its
  keys; the other values are not iterable.
\<close>

fun py_iter :: "json \<Rightarrow> exn + json list" where
  "py_iter (JArr xs) = Inr xs"
| "py_iter (JStr s) = Inr (map (\<lambda>c. JStr [c]) s)"
| "py_iter (JObj kvs) = Inr (map (\<lambda>kv. JStr (fst kv)) kvs)"
| "py_iter v = Inl TypeError"

text \<open>
  \<^verbatim>\<open>str(e)\<close>. The message of an exception raised by the repository is the one it was
  given; the message of an exception raised by the library is library text and is
  represented by the name of its class.
\<close>

fun str_exn :: "exn \<Rightarrow> string" where
  "str_exn (ValueError m) = m"
| "str_exn (OtherError m) = m"
| "str_exn (KeyError k) = [CHR 0x27] @ k @ [CHR 0x27]"
| "str_exn JSONDecodeError = ''JSONDecodeError''"
| "str_exn ValidationError = ''ValidationError''"
| "str_exn TypeError = ''TypeError''"
| "str_exn AttributeError = ''AttributeError''"
| "str_exn (UnboundLocalError v) = ''UnboundLocalError''"
| "str_exn OverflowError = ''OverflowError''"
| "str_exn RecursionError = ''RecursionError''"

subsection \<open>String methods\<close>

definition py_isspace :: "char \<Rightarrow> bool" where
  "py_isspace c \<longleftrightarrow>
     c \<in> {CHR 0x09, CHR 0x0A, CHR 0x0B, CHR 0x0C, CHR 0x0D, CHR 0x1C, CHR 0x1D, CHR 0x1E,
          CHR 0x1F, CHR 0x20, CHR 0x85, CHR 0xA0}"

definition strip :: "string \<Rightarrow> string" where
  "strip s = rev (dropWhile py_isspace (rev (dropWhile py_isspace s)))"

text \<open>\<^verbatim>\<open>s.split(sep)\<close> for a separator of one character.\<close>

fun split_char :: "char \<Rightarrow> string \<Rightarrow> string list" where
  "split_char sep [] = [[]]"
| "split_char sep (c # cs) =
     (if c = sep then [] # split_char sep cs
      else (case split_char sep cs of
              [] \<Rightarrow> [[c]]
            | l # ls \<Rightarrow> (c # l) # ls))"

text \<open>\<^verbatim>\<open>s.lower()\<close> on code points below 256.\<close>

definition lower_char :: "char \<Rightarrow> char" where
  "lower_char c =
     (let n = (of_char c :: nat)
      in if (65 \<le> n \<and> n \<le> 90) \<or> (192 \<le> n \<and> n \<le> 222 \<and> n \<noteq> 215)
         then char_of (n + 32) else c)"

definition lower :: "string \<Rightarrow> string" where
  "lower s = map lower_char s"

text \<open>\<^verbatim>\<open>sub in s\<close> on strings.\<close>

fun contains :: "string \<Rightarrow> string \<Rightarrow> bool" where
  "contains [] sub = (sub = [])"
| "contains (c # cs) sub = (take (length sub) (c # cs) = sub \<or> contains cs sub)"

section \<open>Data model (\<^verbatim>\<open>models.py\<close>)\<close>

text \<open>
  A naive \<^verbatim>\<open>datetime\<close>; Python compares two of them field by field in the order
  given here. A \<^verbatim>\<open>timedelta\<close> is its number of milliseconds.
\<close>

datatype datetime =
  Datetime (year: int) (month: int) (day: int) (hour: int) (minute: int) (second: int)
    (microsecond: int)

fun lex_less :: "int list \<Rightarrow> int list \<Rightarrow> bool" where
  "lex_less (x # xs) (y # ys) = (x < y \<or> (x = y \<and> lex_less xs ys))"
| "lex_less xs ys = False"

definition datetime_less :: "datetime \<Rightarrow> datetime \<Rightarrow> bool" where
  "datetime_less a b =
     lex_less [year a, month a, day a, hour a, minute a, second a, microsecond a]
              [year b, month b, day b, hour b, minute b, second b, microsecond b]"

datatype SpeakerRole = PARTICIPANT | MODERATOR | UNKNOWN

record Speaker =
  speaker_id :: string
  role :: SpeakerRole
  name :: "string option"
  speaker_confidence :: real

record TranscriptionSegment =
  seg_start :: int
  seg_end :: int
  speaker :: string
  seg_text :: string
  seg_confidence :: real

record MeetingTranscript =
  meeting_id :: string
  audio_url :: string
  duration :: int
  speakers :: "Speaker list"
  segments :: "TranscriptionSegment list"
  created_at :: datetime

record ActionItem =
  description :: string
  assignee :: "string option"
  due_date :: "datetime option"
  priority :: string
  item_status :: string

record Decision =
  topic :: string
  decision :: string
  rationale :: "string option"
  impact :: "string option"

record MeetingMinutes =
  minutes_meeting_id :: string
  date :: datetime
  minutes_duration :: int
  participants :: "string list"
  key_points :: "string list"
  action_items :: "ActionItem list"
  decisions :: "Decision list"
  next_steps :: "string list"
  summary :: string

record CalendarEvent =
  event_summary :: string
  event_description :: string
  start_time :: datetime
  end_time :: datetime
  attendees :: "string list"
  location :: "string option"
  reminders :: json

definition default_reminders :: json where
  "default_reminders =
     JObj [(''useDefault'', JBool False),
           (''overrides'',
            JArr [JObj [(''method'', JStr ''email''), (''minutes'', JInt (24 * 60))],
                  JObj [(''method'', JStr ''popup''), (''minutes'', JInt 30)]])]"

datatype ProcessingStatus = PENDING | PROCESSING | COMPLETED | FAILED

record ProcessingResult =
  status :: ProcessingStatus
  result_meeting_id :: string
  transcript :: "MeetingTranscript option"
  minutes :: "MeetingMinutes option"
  calendar_events :: "CalendarEvent list"
  error_message :: "string option"
  processing_time :: "real option"

section \<open>Library calls\<close>

text \<open>
  The library functions the code calls are parameters, collected in one record:
  \<^item> \<open>json_loads\<close>: \<^verbatim>\<open>json.loads\<close>, the parsed value or the exception raised;
  \<^item> \<open>strptime\<close>: \<^verbatim>\<open>datetime.strptime(text, format)\<close> on a string, \<open>None\<close> for
    \<^verbatim>\<open>ValueError\<close>;
  \<^item> \<open>re_search\<close>: \<^verbatim>\<open>re.search(pattern, text, re.IGNORECASE)\<close>, giving group 1 of the
    match, \<open>None\<close> when there is no match;
  \<^item> \<open>coerce_str\<close>: what pydantic makes of a \<^verbatim>\<open>bool\<close>, \<^verbatim>\<open>int\<close> or \<^verbatim>\<open>float\<close> given
    for a field of type \<^verbatim>\<open>str\<close> (its major versions differ: one converts a number to
    its text, the other rejects it); \<open>None\<close> is rejection.
\<close>

record pylib =
  json_loads :: "string \<Rightarrow> exn + json"
  strptime :: "string \<Rightarrow> string \<Rightarrow> datetime option"
  re_search :: "string \<Rightarrow> string \<Rightarrow> string option"
  coerce_str :: "json \<Rightarrow> string option"

text \<open>
  \<^verbatim>\<open>datetime.strptime(v, fmt)\<close> on a parsed value: a value that is not a string is a
  \<^verbatim>\<open>TypeError\<close>. (The message of the library's \<^verbatim>\<open>ValueError\<close> is not modelled.)
\<close>

fun py_strptime :: "pylib \<Rightarrow> json \<Rightarrow> string \<Rightarrow> exn + datetime" where
  "py_strptime L (JStr s) fmt =
     (case strptime L s fmt of Some d \<Rightarrow> Inr d | None \<Rightarrow> Inl (ValueError []))"
| "py_strptime L v fmt = Inl TypeError"

text \<open>
  \<^verbatim>\<open>timedelta(milliseconds=n)\<close>: the number of days must have a magnitude of at most
  999999999.
\<close>

definition timedelta_milliseconds :: "int \<Rightarrow> exn + int" where
  "timedelta_milliseconds n =
     (if - 999999999 \<le> n div 86400000 \<and> n div 86400000 \<le> 999999999 then Inr n
      else Inl OverflowError)"

subsection \<open>Validation of model fields by pydantic\<close>

text \<open>
  A field of type \<^verbatim>\<open>str\<close> takes a string as it is and rejects \<^verbatim>\<open>None\<close>, a list and a
  dict; \<^verbatim>\<open>Optional[str]\<close> also takes \<^verbatim>\<open>None\<close>; \<^verbatim>\<open>List[str]\<close> takes a list whose
  elements are valid for \<^verbatim>\<open>str\<close>. A rejected value raises \<^verbatim>\<open>ValidationError\<close>.
\<close>

fun str_field :: "pylib \<Rightarrow> json \<Rightarrow> string option" where
  "str_field L (JStr s) = Some s"
| "str_field L JNull = None"
| "str_field L (JArr xs) = None"
| "str_field L (JObj kvs) = None"
| "str_field L v = coerce_str L v"

fun opt_str_field :: "pylib \<Rightarrow> json \<Rightarrow> string option option" where
  "opt_str_field L JNull = Some None"
| "opt_str_field L v = map_option Some (str_field L v)"

fun all_valid :: "'a option list \<Rightarrow> 'a list option" where
  "all_valid [] = Some []"
| "all_valid (None # xs) = None"
| "all_valid (Some x # xs) = map_option ((#) x) (all_valid xs)"

fun str_list_field :: "pylib \<Rightarrow> json \<Rightarrow> string list option" where
  "str_list_field L (JArr xs) = all_valid (map (str_field L) xs)"
| "str_list_field L v = None"

fun validated :: "'a option \<Rightarrow> exn + 'a" where
  "validated None = Inl ValidationError"
| "validated (Some x) = Inr x"

section \<open>Minutes synthesizer (\<^verbatim>\<open>LLMProcessor.generate_meeting_minutes\<close>)\<close>

text \<open>
  The call of the completion service (\<^verbatim>\<open>_call_ollama\<close>) is the environment: its
  outcome, the text returned or the exception raised, is an argument of each function
  that makes the call. The prompts are built from the transcript by string formatting,
  which cannot fail, and reach the service only.
\<close>

subsection \<open>Fallback parsing\<close>

text \<open>
  The second prefix of \<^verbatim>\<open>line.startswith(('-', ..., '*'))\<close> contains the code point
  U+20AC, so no text of code points below 256 starts with it; the two other prefixes
  are left.
\<close>

definition is_bullet_line :: "string \<Rightarrow> bool" where
  "is_bullet_line line \<longleftrightarrow>
     (take 1 line = ''-'' \<or> take 1 line = ''*'') \<and> length line > 2"

fun fallback_key_points :: "string list \<Rightarrow> string list \<Rightarrow> string list" where
  "fallback_key_points key_points' [] = key_points'"
| "fallback_key_points key_points' (line # rest) =
     (if is_bullet_line (strip line)
      then fallback_key_points (key_points' @ [strip (drop 1 (strip line))]) rest
      else fallback_key_points key_points' rest)"

definition summary_pattern :: string where
  "summary_pattern = ''summary[:'' @ [CHR 0x5C] @ ''s]+(.+?)(?:'' @ [CHR 0x5C] @ ''n|$)''"

definition fallback_summary :: "pylib \<Rightarrow> string \<Rightarrow> string" where
  "fallback_summary L response =
     (if contains (lower response) ''summary''
      then (case re_search L summary_pattern response of
              Some group1 \<Rightarrow> strip group1
            | None \<Rightarrow> [])
      else [])"

definition fallback_parsing :: "pylib \<Rightarrow> string \<Rightarrow> json" where
  "fallback_parsing L response =
     JObj [(''key_points'',
              JArr (map JStr (fallback_key_points [] (split_char (CHR 0x0A) response)))),
           (''action_items'', JArr []),
           (''decisions'', JArr []),
           (''next_steps'', JArr []),
           (''summary'', JStr (fallback_summary L response))]"

subsection \<open>Action items and decisions\<close>

text \<open>The body of the loop over \<^verbatim>\<open>parsed_data.get("action_items", [])\<close>.\<close>

definition make_action_item :: "pylib \<Rightarrow> json \<Rightarrow> exn + ActionItem" where
  "make_action_item L item =
     and_then (py_get item ''due_date'' JNull) (\<lambda>dd.
     and_then
       (if truthy dd then
          (case and_then (py_getitem item ''due_date'') (\<lambda>v. py_strptime L v ''%Y-%m-%d'') of
             Inr d \<Rightarrow> Inr (Some d)
           | Inl e \<Rightarrow> if isinstance_ValueError e then Inr None else Inl e)
        else Inr None) (\<lambda>due.
     and_then (py_get item ''description'' (JStr [])) (\<lambda>d.
     and_then (py_get item ''assignee'' JNull) (\<lambda>a.
     and_then (py_get item ''priority'' (JStr ''medium'')) (\<lambda>p.
     and_then (validated (str_field L d)) (\<lambda>d'.
     and_then (validated (opt_str_field L a)) (\<lambda>a'.
     and_then (validated (str_field L p)) (\<lambda>p'.
       Inr \<lparr>description = d', assignee = a', due_date = due, priority = p',
            item_status = ''pending''\<rparr>))))))))"

fun action_items_loop :: "pylib \<Rightarrow> ActionItem list \<Rightarrow> json list \<Rightarrow> exn + ActionItem list" where
  "action_items_loop L action_items' [] = Inr action_items'"
| "action_items_loop L action_items' (item # rest) =
     and_then (make_action_item L item) (\<lambda>a. action_items_loop L (action_items' @ [a]) rest)"

definition make_decision :: "pylib \<Rightarrow> json \<Rightarrow> exn + Decision" where
  "make_decision L dec =
     and_then (py_get dec ''topic'' (JStr [])) (\<lambda>t.
     and_then (py_get dec ''decision'' (JStr [])) (\<lambda>d.
     and_then (py_get dec ''rationale'' JNull) (\<lambda>r.
     and_then (validated (str_field L t)) (\<lambda>t'.
     and_then (validated (str_field L d)) (\<lambda>d'.
     and_then (validated (opt_str_field L r)) (\<lambda>r'.
       Inr \<lparr>topic = t', decision = d', rationale = r', impact = None\<rparr>))))))"

fun decisions_loop :: "pylib \<Rightarrow> Decision list \<Rightarrow> json list \<Rightarrow> exn + Decision list" where
  "decisions_loop L decisions' [] = Inr decisions'"
| "decisions_loop L decisions' (dec # rest) =
     and_then (make_decision L dec) (\<lambda>d. decisions_loop L (decisions' @ [d]) rest)"

subsection \<open>The minutes\<close>

text \<open>
  The part of \<^verbatim>\<open>generate_meeting_minutes\<close> after \<open>parsed_data\<close> is known.
  \<^verbatim>\<open>list(set(...))\<close> keeps one copy of each speaker, in an order Python does not
  specify; \<^const>\<open>remdups\<close> gives one such order.
\<close>

definition build_minutes :: "pylib \<Rightarrow> MeetingTranscript \<Rightarrow> json \<Rightarrow> exn + MeetingMinutes" where
  "build_minutes L t parsed_data =
     and_then (py_get parsed_data ''action_items'' (JArr [])) (\<lambda>ai.
     and_then (py_iter ai) (\<lambda>items.
     and_then (action_items_loop L [] items) (\<lambda>action_items'.
     and_then (py_get parsed_data ''decisions'' (JArr [])) (\<lambda>ds.
     and_then (py_iter ds) (\<lambda>decs.
     and_then (decisions_loop L [] decs) (\<lambda>decisions'.
     and_then (py_get parsed_data ''key_points'' JNull) (\<lambda>kp.
     and_then (py_get parsed_data ''next_steps'' JNull) (\<lambda>ns.
     and_then (timedelta_milliseconds (duration t)) (\<lambda>dur.
     and_then (py_get parsed_data ''summary'' (JStr [])) (\<lambda>sm.
     and_then (validated (str_list_field L (py_or kp (JArr [])))) (\<lambda>key_points'.
     and_then (validated (str_list_field L (py_or ns (JArr [])))) (\<lambda>next_steps'.
     and_then (validated (str_field L sm)) (\<lambda>summary'.
       Inr \<lparr>minutes_meeting_id = meeting_id t, date = created_at t, minutes_duration = dur,
            participants = remdups (map speaker (segments t)),
            key_points = key_points', action_items = action_items',
            decisions = decisions', next_steps = next_steps',
            summary = summary'\<rparr>)))))))))))))"

definition generate_meeting_minutes ::
  "pylib \<Rightarrow> MeetingTranscript \<Rightarrow> exn + string \<Rightarrow> exn + MeetingMinutes" where
  "generate_meeting_minutes L t completion =
     (case completion of
        Inl e \<Rightarrow> Inl e
      | Inr response \<Rightarrow>
          build_minutes L t
            (case extract_first_json_block (json_loads L) response of
               Inr parsed_data \<Rightarrow> parsed_data
             | Inl e \<Rightarrow> fallback_parsing L response))"

section \<open>Calendar-event extractor (\<^verbatim>\<open>LLMProcessor.extract_calendar_events\<close>)\<close>

text \<open>\<^verbatim>\<open>parse_datetime\<close>: the loop over the two formats, then the final \<^verbatim>\<open>raise\<close>.\<close>

fun format_str :: "json \<Rightarrow> string" where
  "format_str (JStr s) = s"
| "format_str v = []"

fun parse_datetime_loop :: "pylib \<Rightarrow> json \<Rightarrow> string list \<Rightarrow> exn + datetime" where
  "parse_datetime_loop L dt_str [] =
     Inl (ValueError (''Time data '' @ [CHR 0x27] @ format_str dt_str @ [CHR 0x27] @
                      '' does not match expected formats.''))"
| "parse_datetime_loop L dt_str (fmt # fmts) =
     (case py_strptime L dt_str fmt of
        Inr d \<Rightarrow> Inr d
      | Inl e \<Rightarrow> if isinstance_ValueError e then parse_datetime_loop L dt_str fmts else Inl e)"

definition parse_datetime :: "pylib \<Rightarrow> json \<Rightarrow> exn + datetime" where
  "parse_datetime L dt_str =
     parse_datetime_loop L dt_str [''%Y-%m-%d %H:%M'', ''%Y-%m-%d %H:%M:%S'']"

text \<open>The \<^verbatim>\<open>try\<close> block of the loop over \<^verbatim>\<open>parsed_data.get("events", [])\<close>.\<close>

definition make_event :: "pylib \<Rightarrow> json \<Rightarrow> exn + CalendarEvent" where
  "make_event L event_data =
     and_then (py_getitem event_data ''start_time'') (\<lambda>sv.
     and_then (parse_datetime L sv) (\<lambda>start_time'.
     and_then (py_getitem event_data ''end_time'') (\<lambda>ev.
     and_then (parse_datetime L ev) (\<lambda>end_time'.
     and_then (py_get event_data ''summary'' (JStr [])) (\<lambda>s.
     and_then (py_get event_data ''description'' (JStr [])) (\<lambda>d.
     and_then (py_get event_data ''attendees'' (JArr [])) (\<lambda>a.
     and_then (py_get event_data ''location'' JNull) (\<lambda>l.
     and_then (validated (str_field L s)) (\<lambda>s'.
     and_then (validated (str_field L d)) (\<lambda>d'.
     and_then (validated (str_list_field L a)) (\<lambda>a'.
     and_then (validated (opt_str_field L l)) (\<lambda>l'.
       Inr \<lparr>event_summary = s', event_description = d', start_time = start_time',
            end_time = end_time', attendees = a', location = l',
            reminders = default_reminders\<rparr>))))))))))))"

text \<open>
  The loop: \<^verbatim>\<open>except (ValueError, KeyError)\<close> drops the candidate and continues; any
  other exception leaves the loop.
\<close>

fun events_loop :: "pylib \<Rightarrow> CalendarEvent list \<Rightarrow> json list \<Rightarrow> exn + CalendarEvent list" where
  "events_loop L events [] = Inr events"
| "events_loop L events (event_data # rest) =
     (case make_event L event_data of
        Inr event \<Rightarrow> events_loop L (events @ [event]) rest
      | Inl e \<Rightarrow>
          if isinstance_ValueError e \<or> isinstance_KeyError e then events_loop L events rest
          else Inl e)"

text \<open>
  The whole function: its outer handler \<^verbatim>\<open>except Exception\<close> returns the empty list,
  as does the handler around the extraction of the JSON block.
\<close>

definition extract_calendar_events ::
  "pylib \<Rightarrow> MeetingTranscript \<Rightarrow> MeetingMinutes option \<Rightarrow> exn + string \<Rightarrow> CalendarEvent list" where
  "extract_calendar_events L t m completion =
     (case completion of
        Inl e \<Rightarrow> []
      | Inr response \<Rightarrow>
          (case extract_first_json_block (json_loads L) response of
             Inl e \<Rightarrow> []
           | Inr parsed_data \<Rightarrow>
               (case and_then (py_get parsed_data ''events'' (JArr [])) (\<lambda>v.
                     and_then (py_iter v) (events_loop L [])) of
                  Inl e \<Rightarrow> []
                | Inr events \<Rightarrow> events)))"

section \<open>Speaker-name inference (\<^verbatim>\<open>LLMProcessor.infer_speaker_names\<close>)\<close>

text \<open>
  The loop over \<^verbatim>\<open>mapping.items()\<close>; the keys of a parsed dict are strings, so
  \<^verbatim>\<open>isinstance(speaker_label, str)\<close> holds. The resulting dict is the list of its items
  and \<^verbatim>\<open>d[k] = v\<close> is \<^const>\<open>AList.update\<close>.
\<close>

fun validate_mapping :: "(string \<times> string) list \<Rightarrow> (string \<times> json) list \<Rightarrow> (string \<times> string) list" where
  "validate_mapping validated_mapping [] = validated_mapping"
| "validate_mapping validated_mapping ((speaker_label, JStr inferred_name) # rest) =
     validate_mapping (AList.update speaker_label inferred_name validated_mapping) rest"
| "validate_mapping validated_mapping ((speaker_label, v) # rest) =
     validate_mapping validated_mapping rest"

text \<open>The \<^verbatim>\<open>try\<close> block.\<close>

definition infer_speaker_names_try :: "pylib \<Rightarrow> exn + string \<Rightarrow> exn + (string \<times> string) list" where
  "infer_speaker_names_try L completion =
     and_then completion (\<lambda>response.
     and_then (extract_first_json_block (json_loads L) response) (\<lambda>mapping.
       (case mapping of
          JObj kvs \<Rightarrow> Inr (validate_mapping [] kvs)
        | _ \<Rightarrow> Inl (ValueError ''Response is not a valid dictionary''))))"

text \<open>
  The handler \<^verbatim>\<open>except Exception as e\<close> prints \<^verbatim>\<open>response\<close> before it returns the
  empty dict. \<^verbatim>\<open>response\<close> is a local variable that the first statement of the
  \<^verbatim>\<open>try\<close> block assigns: when the completion call raised, it is unbound, reading it
  raises \<^verbatim>\<open>UnboundLocalError\<close> inside the handler, and that exception leaves the
  function.
\<close>

definition infer_speaker_names ::
  "pylib \<Rightarrow> MeetingTranscript \<Rightarrow> exn + string \<Rightarrow> exn + (string \<times> string) list" where
  "infer_speaker_names L t completion =
     (case infer_speaker_names_try L completion of
        Inr validated_mapping \<Rightarrow> Inr validated_mapping
      | Inl e \<Rightarrow>
          (case completion of
             Inl e' \<Rightarrow> Inl (UnboundLocalError ''response'')
           | Inr response \<Rightarrow> Inr []))"

section \<open>Pipeline orchestrator (\<^verbatim>\<open>ai_agent.py\<close>)\<close>

text \<open>
  \<^verbatim>\<open>AIAgent\<close> calls methods of its three components. Each method is a function that
  returns a value or raises; the orchestrator is modelled for every behaviour of the
  components. \<^verbatim>\<open>create_events\<close> returns the created events, of which only the number
  is used.
\<close>

record components =
  process_audio_file :: "string \<Rightarrow> string \<Rightarrow> exn + MeetingTranscript"
  llm_infer_speaker_names :: "MeetingTranscript \<Rightarrow> exn + (string \<times> string) list"
  llm_generate_meeting_minutes :: "MeetingTranscript \<Rightarrow> exn + MeetingMinutes"
  llm_extract_calendar_events ::
    "MeetingTranscript \<Rightarrow> MeetingMinutes option \<Rightarrow> exn + CalendarEvent list"
  create_events :: "CalendarEvent list \<Rightarrow> exn + nat"

text \<open>
  What a run reads from its environment: the value of \<^verbatim>\<open>str(uuid.uuid4())\<close> and the
  two readings of \<^verbatim>\<open>time.time()\<close>, at the start and when the final status is set.
\<close>

record run_env =
  uuid4 :: string
  clock_start :: real
  clock_end :: real

definition resolve_meeting_id :: "run_env \<Rightarrow> string option \<Rightarrow> string" where
  "resolve_meeting_id env mid =
     (case mid of None \<Rightarrow> uuid4 env | Some m \<Rightarrow> if m = [] then uuid4 env else m)"

definition new_result :: "string \<Rightarrow> ProcessingResult" where
  "new_result mid =
     \<lparr>status = PROCESSING, result_meeting_id = mid, transcript = None, minutes = None,
      calendar_events = [], error_message = None, processing_time = None\<rparr>"

text \<open>
  The outcome of a \<^verbatim>\<open>try\<close> block: the result at its end, or the exception raised
  together with the result as it was at that moment.
\<close>

type_synonym attempt = "(exn \<times> ProcessingResult) + ProcessingResult"

fun step :: "ProcessingResult \<Rightarrow> exn + 'a \<Rightarrow> ('a \<Rightarrow> attempt) \<Rightarrow> attempt" where
  "step result (Inl e) f = Inl (e, result)"
| "step result (Inr x) f = f x"

text \<open>The last two statements of the \<^verbatim>\<open>try\<close> block, and the handler.\<close>

fun finish :: "run_env \<Rightarrow> attempt \<Rightarrow> ProcessingResult" where
  "finish env (Inr result) =
     result\<lparr>status := COMPLETED, processing_time := Some (clock_end env - clock_start env)\<rparr>"
| "finish env (Inl (e, result)) =
     result\<lparr>status := FAILED, error_message := Some (str_exn e),
            processing_time := Some (clock_end env - clock_start env)\<rparr>"

subsection \<open>Relabeling\<close>

text \<open>
  The two loops assign to the attribute of each element in turn. The elements are the
  objects \<^verbatim>\<open>transcribe_audio\<close> constructed, one per list position.
\<close>

fun relabel_segments ::
  "(string \<times> string) list \<Rightarrow> TranscriptionSegment list \<Rightarrow> TranscriptionSegment list" where
  "relabel_segments speaker_map [] = []"
| "relabel_segments speaker_map (segment # rest) =
     (case map_of speaker_map (speaker segment) of
        Some n \<Rightarrow> segment\<lparr>speaker := n\<rparr>
      | None \<Rightarrow> segment) # relabel_segments speaker_map rest"

fun relabel_speakers :: "(string \<times> string) list \<Rightarrow> Speaker list \<Rightarrow> Speaker list" where
  "relabel_speakers speaker_map [] = []"
| "relabel_speakers speaker_map (sp # rest) =
     (case map_of speaker_map (speaker_id sp) of
        Some n \<Rightarrow> sp\<lparr>speaker_id := n\<rparr>
      | None \<Rightarrow> sp) # relabel_speakers speaker_map rest"

definition relabel :: "(string \<times> string) list \<Rightarrow> MeetingTranscript \<Rightarrow> MeetingTranscript" where
  "relabel speaker_map t =
     (if speaker_map \<noteq> []
      then t\<lparr>segments := relabel_segments speaker_map (segments t),
             speakers := relabel_speakers speaker_map (speakers t)\<rparr>
      else t)"

subsection \<open>The four entry points\<close>

text \<open>
  \<^verbatim>\<open>result.transcript\<close> is the transcript object itself, so the relabeling done in
  place shows in the result; the model stores the relabeled transcript again.
\<close>

definition create_if_any :: "components \<Rightarrow> CalendarEvent list \<Rightarrow> exn + unit" where
  "create_if_any c events =
     (if events \<noteq> [] then and_then (create_events c events) (\<lambda>n. Inr ()) else Inr ())"

definition process_meeting_try :: "components \<Rightarrow> string \<Rightarrow> string \<Rightarrow> attempt" where
  "process_meeting_try c audio_path mid =
     step (new_result mid) (process_audio_file c audio_path mid) (\<lambda>t.
     step (new_result mid\<lparr>transcript := Some t\<rparr>) (llm_infer_speaker_names c t) (\<lambda>speaker_map.
     step (new_result mid\<lparr>transcript := Some (relabel speaker_map t)\<rparr>)
          (llm_generate_meeting_minutes c (relabel speaker_map t)) (\<lambda>m.
     step (new_result mid\<lparr>transcript := Some (relabel speaker_map t), minutes := Some m\<rparr>)
          (llm_extract_calendar_events c (relabel speaker_map t) (Some m)) (\<lambda>events.
     step (new_result mid\<lparr>transcript := Some (relabel speaker_map t), minutes := Some m,
                           calendar_events := events\<rparr>)
          (create_if_any c events) (\<lambda>u.
     Inr (new_result mid\<lparr>transcript := Some (relabel speaker_map t), minutes := Some m,
                          calendar_events := events\<rparr>))))))"

definition process_meeting ::
  "components \<Rightarrow> run_env \<Rightarrow> string \<Rightarrow> string option \<Rightarrow> ProcessingResult" where
  "process_meeting c env audio_path mid =
     finish env (process_meeting_try c audio_path (resolve_meeting_id env mid))"

definition generate_minutes_only_try :: "components \<Rightarrow> string \<Rightarrow> string \<Rightarrow> attempt" where
  "generate_minutes_only_try c audio_path mid =
     step (new_result mid) (process_audio_file c audio_path mid) (\<lambda>t.
     step (new_result mid\<lparr>transcript := Some t\<rparr>) (llm_generate_meeting_minutes c t) (\<lambda>m.
     Inr (new_result mid\<lparr>transcript := Some t, minutes := Some m\<rparr>)))"

definition generate_minutes_only ::
  "components \<Rightarrow> run_env \<Rightarrow> string \<Rightarrow> string option \<Rightarrow> ProcessingResult" where
  "generate_minutes_only c env audio_path mid =
     finish env (generate_minutes_only_try c audio_path (resolve_meeting_id env mid))"

definition extract_events_only_try :: "components \<Rightarrow> string \<Rightarrow> string \<Rightarrow> attempt" where
  "extract_events_only_try c audio_path mid =
     step (new_result mid) (process_audio_file c audio_path mid) (\<lambda>t.
     step (new_result mid\<lparr>transcript := Some t\<rparr>) (llm_extract_calendar_events c t None) (\<lambda>events.
     step (new_result mid\<lparr>transcript := Some t, calendar_events := events\<rparr>)
          (create_if_any c events) (\<lambda>u.
     Inr (new_result mid\<lparr>transcript := Some t, calendar_events := events\<rparr>))))"

definition extract_events_only ::
  "components \<Rightarrow> run_env \<Rightarrow> string \<Rightarrow> string option \<Rightarrow> ProcessingResult" where
  "extract_events_only c env audio_path mid =
     finish env (extract_events_only_try c audio_path (resolve_meeting_id env mid))"

definition generate_transcript_only_try :: "components \<Rightarrow> string \<Rightarrow> string \<Rightarrow> attempt" where
  "generate_transcript_only_try c audio_path mid =
     step (new_result mid) (process_audio_file c audio_path mid) (\<lambda>t.
     Inr (new_result mid\<lparr>transcript := Some t\<rparr>))"

definition generate_transcript_only ::
  "components \<Rightarrow> run_env \<Rightarrow> string \<Rightarrow> string option \<Rightarrow> ProcessingResult" where
  "generate_transcript_only c env audio_path mid =
     finish env (generate_transcript_only_try c audio_path (resolve_meeting_id env mid))"

subsection \<open>The components of the repository\<close>

text \<open>
  The agent with the \<^verbatim>\<open>LLMProcessor\<close> modelled above. The transcription service, the
  completion service (one answer for each of the three prompts, each prompt built from
  the transcript it is given) and the calendar service are the environment.
\<close>

record services =
  transcription :: "string \<Rightarrow> string \<Rightarrow> exn + MeetingTranscript"
  names_completion :: "MeetingTranscript \<Rightarrow> exn + string"
  minutes_completion :: "MeetingTranscript \<Rightarrow> exn + string"
  events_completion :: "MeetingTranscript \<Rightarrow> exn + string"
  calendar_created :: "CalendarEvent list \<Rightarrow> nat"

definition agent :: "pylib \<Rightarrow> services \<Rightarrow> components" where
  "agent L sv =
     \<lparr>process_audio_file = transcription sv,
      llm_infer_speaker_names = (\<lambda>t. infer_speaker_names L t (names_completion sv t)),
      llm_generate_meeting_minutes = (\<lambda>t. generate_meeting_minutes L t (minutes_completion sv t)),
      llm_extract_calendar_events =
        (\<lambda>t m. Inr (extract_calendar_events L t m (events_completion sv t))),
      create_events = (\<lambda>events. Inr (calendar_created sv events))\<rparr>"

section \<open>Notions used in the properties\<close>

text \<open>
  What one candidate contributes to the list of events when its \<^verbatim>\<open>try\<close> block does not
  raise or raises an exception the loop catches, and whether it is such a candidate.
\<close>

definition kept :: "pylib \<Rightarrow> json \<Rightarrow> CalendarEvent list" where
  "kept L c = (case make_event L c of Inr ev \<Rightarrow> [ev] | Inl e \<Rightarrow> [])"

definition droppable :: "pylib \<Rightarrow> json \<Rightarrow> bool" where
  "droppable L c =
     (case make_event L c of
        Inr ev \<Rightarrow> True
      | Inl e \<Rightarrow> isinstance_ValueError e \<or> isinstance_KeyError e)"

text \<open>A candidate that is a dict whose two timestamps are strings or missing.\<close>

fun text_or_missing :: "json option \<Rightarrow> bool" where
  "text_or_missing None = True"
| "text_or_missing (Some (JStr s)) = True"
| "text_or_missing (Some v) = False"

fun timestamps_are_text :: "json \<Rightarrow> bool" where
  "timestamps_are_text (JObj kvs) =
     (text_or_missing (map_of kvs ''start_time'') \<and>
      text_or_missing (map_of kvs ''end_time''))"
| "timestamps_are_text v = False"

text \<open>
  The candidates of a response: the list the loop of \<^verbatim>\<open>extract_calendar_events\<close> runs
  over, that is, the elements of \<^verbatim>\<open>parsed_data.get("events", [])\<close>; \<open>None\<close> when the
  completion call, the extraction of the block, \<^verbatim>\<open>get\<close> or the iteration raised.
\<close>

definition candidates :: "pylib \<Rightarrow> exn + string \<Rightarrow> json list option" where
  "candidates L completion =
     (case completion of
        Inl e \<Rightarrow> None
      | Inr response \<Rightarrow>
          (case extract_first_json_block (json_loads L) response of
             Inl e \<Rightarrow> None
           | Inr parsed_data \<Rightarrow>
               (case and_then (py_get parsed_data ''events'' (JArr [])) py_iter of
                  Inl e \<Rightarrow> None
                | Inr cands \<Rightarrow> Some cands)))"

text \<open>
  The identifier the specification gives a speaker after relabeling with the map \<open>M\<close>:
  \<open>M[original]\<close> if the original identifier is a key of \<open>M\<close>, the original identifier
  otherwise.
\<close>

definition relabeled_id :: "(string \<times> string) list \<Rightarrow> string \<Rightarrow> string" where
  "relabeled_id M original = (case map_of M original of Some n \<Rightarrow> n | None \<Rightarrow> original)"

text \<open>
  A result in a terminal state: completed or failed, with the elapsed time set, and with
  an error message when failed.
\<close>

definition terminal :: "run_env \<Rightarrow> ProcessingResult \<Rightarrow> bool" where
  "terminal env r \<longleftrightarrow>
     (status r = COMPLETED \<or> status r = FAILED) \<and>
     processing_time r = Some (clock_end env - clock_start env) \<and>
     (status r = FAILED \<longrightarrow> error_message r \<noteq> None)"

section \<open>Concrete inputs\<close>

text \<open>
  A library given by tables: \<^verbatim>\<open>json.loads\<close> and \<^verbatim>\<open>datetime.strptime\<close> succeed on the
  listed inputs, with the listed values, and fail on every other input;
  \<^verbatim>\<open>re.search\<close> finds nothing and pydantic rejects a number for a \<^verbatim>\<open>str\<close> field.
\<close>

definition pylib_of ::
  "(string \<times> json) list \<Rightarrow> ((string \<times> string) \<times> datetime) list \<Rightarrow> pylib" where
  "pylib_of loads_tbl strptime_tbl =
     \<lparr>json_loads = json_loads_table loads_tbl,
      strptime = (\<lambda>s fmt. map_of strptime_tbl (s, fmt)),
      re_search = (\<lambda>pattern s. None),
      coerce_str = (\<lambda>v. None)\<rparr>"

text \<open>The transcript of the end-to-end scenario of the specification.\<close>

definition scenario_transcript :: MeetingTranscript where
  "scenario_transcript =
     \<lparr>meeting_id = ''m1'', audio_url = ''meeting.wav'', duration = 9000,
      speakers =
        [\<lparr>speaker_id = ''A'', role = PARTICIPANT, name = None, speaker_confidence = 1\<rparr>,
         \<lparr>speaker_id = ''B'', role = PARTICIPANT, name = None, speaker_confidence = 1\<rparr>],
      segments =
        [\<lparr>seg_start = 0, seg_end = 5000, speaker = ''A'', seg_text = ''Hi I'm John'',
          seg_confidence = 1\<rparr>,
         \<lparr>seg_start = 5000, seg_end = 9000, speaker = ''B'',
          seg_text = ''Thanks John, let's meet Thursday at 2pm'', seg_confidence = 1\<rparr>],
      created_at = Datetime 2025 1 6 9 0 0 0\<rparr>"

text \<open>
  Answers of the completion service to the event prompt, with what \<^verbatim>\<open>json.loads\<close> makes
  of them and what \<^verbatim>\<open>datetime.strptime\<close> makes of their timestamps: one valid
  candidate followed by a candidate whose start is \<^verbatim>\<open>null\<close>, respectively is not a
  date; and one candidate that ends before it starts.
\<close>

definition events_null_start :: string where
  \<open>events_null_start = ''{"events": [{"summary": "Sync", "start_time": "2025-01-09 14:00", "end_time": "2025-01-09 14:30"}, {"summary": "Review", "start_time": null, "end_time": "2025-01-10 10:00"}]}''\<close>

definition events_bad_start :: string where
  \<open>events_bad_start = ''{"events": [{"summary": "Sync", "start_time": "2025-01-09 14:00", "end_time": "2025-01-09 14:30"}, {"summary": "Review", "start_time": "next Thursday", "end_time": "2025-01-10 10:00"}]}''\<close>

definition events_reversed :: string where
  \<open>events_reversed = ''{"events": [{"summary": "Retro", "start_time": "2025-01-09 15:00", "end_time": "2025-01-09 14:00"}]}''\<close>

definition sync_candidate :: json where
  "sync_candidate =
     JObj [(''summary'', JStr ''Sync''), (''start_time'', JStr ''2025-01-09 14:00''),
           (''end_time'', JStr ''2025-01-09 14:30'')]"

definition events_lib :: pylib where
  "events_lib =
     pylib_of
       [(events_null_start,
         JObj [(''events'', JArr [sync_candidate,
            JObj [(''summary'', JStr ''Review''), (''start_time'', JNull),
                  (''end_time'', JStr ''2025-01-10 10:00'')]])]),
        (events_bad_start,
         JObj [(''events'', JArr [sync_candidate,
            JObj [(''summary'', JStr ''Review''), (''start_time'', JStr ''next Thursday''),
                  (''end_time'', JStr ''2025-01-10 10:00'')]])]),
        (events_reversed,
         JObj [(''events'', JArr
            [JObj [(''summary'', JStr ''Retro''), (''start_time'', JStr ''2025-01-09 15:00''),
                   (''end_time'', JStr ''2025-01-09 14:00'')]])])]
       [((''2025-01-09 14:00'', ''%Y-%m-%d %H:%M''), Datetime 2025 1 9 14 0 0 0),
        ((''2025-01-09 14:30'', ''%Y-%m-%d %H:%M''), Datetime 2025 1 9 14 30 0 0),
        ((''2025-01-09 15:00'', ''%Y-%m-%d %H:%M''), Datetime 2025 1 9 15 0 0 0),
        ((''2025-01-10 10:00'', ''%Y-%m-%d %H:%M''), Datetime 2025 1 10 10 0 0 0)]"

definition sync_event :: CalendarEvent where
  "sync_event =
     \<lparr>event_summary = ''Sync'', event_description = [],
      start_time = Datetime 2025 1 9 14 0 0 0, end_time = Datetime 2025 1 9 14 30 0 0,
      attendees = [], location = None, reminders = default_reminders\<rparr>"

text \<open>
  The services of the end-to-end scenario: the transcription gives the scenario's
  transcript, the completion service names speaker A, answers the minutes prompt with a
  bullet list and the event prompt with no events. Variants: the completion service
  fails on the minutes prompt; the names it gives collide with the labels.
\<close>

definition scenario_lib :: pylib where
  \<open>scenario_lib =
     pylib_of [(''{"A": "John"}'', JObj [(''A'', JStr ''John'')]),
               (''{"A": "B", "B": "C"}'', JObj [(''A'', JStr ''B''), (''B'', JStr ''C'')]),
               (''{"events": []}'', JObj [(''events'', JArr [])])] []\<close>

definition scenario_services :: services where
  \<open>scenario_services =
     \<lparr>transcription = (\<lambda>audio_path mid. Inr (scenario_transcript\<lparr>meeting_id := mid\<rparr>)),
      names_completion = (\<lambda>t. Inr ''Here you go: {"A": "John"}''),
      minutes_completion = (\<lambda>t. Inr ''- Meet Thursday at 2pm''),
      events_completion = (\<lambda>t. Inr ''{"events": []}''),
      calendar_created = length\<rparr>\<close>

definition minutes_down_services :: services where
  "minutes_down_services =
     scenario_services\<lparr>minutes_completion := (\<lambda>t. Inl (OtherError ''Ollama API error: 500''))\<rparr>"

definition colliding_services :: services where
  \<open>colliding_services =
     scenario_services\<lparr>names_completion := (\<lambda>t. Inr ''{"A": "B", "B": "C"}'')\<rparr>\<close>

definition scenario_env :: run_env where
  "scenario_env = \<lparr>uuid4 = ''0b9f6c1e-5a3d-4c7e-9d2a-7f1e8b4c6a10'', clock_start = 100, clock_end = 112\<rparr>"

text \<open>
  A text on which \<^verbatim>\<open>json.loads\<close> raises an exception that is not a
  \<^verbatim>\<open>JSONDecodeError\<close>: an integer of 5000 digits is beyond what the interpreter
  converts (4300 digits by default), and the \<^verbatim>\<open>ValueError\<close> of the conversion is raised.
\<close>

definition long_integer_text :: string where
  \<open>long_integer_text = ''{"a": '' @ replicate 5000 (CHR ''1'') @ ''}''\<close>

definition digit_limit_loads :: json_loads where
  "digit_limit_loads s =
     (if s = long_integer_text then Inl (ValueError []) else json_loads_table [] s)"

section \<open>Properties\<close>

lemma str_find_None: "str_find c s = None \<longleftrightarrow> c \<notin> set s"
  by (induction s) auto

lemma str_find_Some: "str_find c s = Some n \<Longrightarrow> n < length s \<and> s ! n = c \<and> c \<notin> set (take n s)"
  by (induction s arbitrary: n) (auto split: if_splits)

lemma brace_depth_append: "brace_depth (xs @ ys) = brace_depth xs + brace_depth ys"
  by (induction xs) auto

lemma scan_braces_step:
  assumes "s = pre @ c # cs" "i = length pre"
  shows "scan_braces loads s start i bc =
     (if c = CHR ''{'' then scan_braces loads s start (i + 1) (bc + 1)
      else if c = CHR ''}'' then
        (if bc - 1 = 0 then parse_block loads (take (i + 1 - start) (drop start s))
         else scan_braces loads s start (i + 1) (bc - 1))
      else scan_braces loads s start (i + 1) bc)"
proof -
  have "i < length s" "s ! i = c" using assms by auto
  then show ?thesis
    by (subst scan_braces.simps) (simp add: parse_block_def split: sum.splits)
qed

lemma scan_braces_end:
  "length s \<le> i \<Longrightarrow> scan_braces loads s start i bc =
      ([], Inl (ValueError ''No valid JSON object found in response.''))"
  by (subst scan_braces.simps) simp

lemma scan_braces_first_zero:
  "s = pre @ suf \<Longrightarrow> i = length pre \<Longrightarrow> 1 \<le> bc \<Longrightarrow>
   scan_braces loads s start i bc =
     (case first_zero bc suf of
        None \<Rightarrow> ([], Inl (ValueError ''No valid JSON object found in response.''))
      | Some n \<Rightarrow> parse_block loads (take (i + n - start) (drop start s)))"
proof (induction suf arbitrary: pre i bc)
  case Nil
  then show ?case by (simp add: scan_braces_end)
next
  case (Cons c cs)
  have split: "s = (pre @ [c]) @ cs" "i + 1 = length (pre @ [c])"
    using Cons.prems by simp_all
  note step = scan_braces_step [OF Cons.prems(1) Cons.prems(2), of loads start bc]
  show ?case
  proof (cases "c = CHR ''{''")
    case True
    have "1 \<le> bc + 1" using Cons.prems by simp
    from Cons.IH [OF split this] True step Cons.prems(3)
    show ?thesis by (simp split: option.splits)
  next
    case notopen: False
    show ?thesis
    proof (cases "c = CHR ''}''")
      case False
      from Cons.IH [OF split Cons.prems(3)] False notopen step Cons.prems(3)
      show ?thesis by (simp split: option.splits)
    next
      case True
      show ?thesis
      proof (cases "bc - 1 = 0")
        case True
        with \<open>c = CHR ''}''\<close> step show ?thesis by simp
      next
        case False
        then have "1 \<le> bc - 1" using Cons.prems by simp
        from Cons.IH [OF split this] False \<open>c = CHR ''}''\<close> step
        show ?thesis by (simp split: option.splits)
      qed
    qed
  qed
qed


lemma first_zero_Some_iff:
  "first_zero d s = Some n \<longleftrightarrow>
     0 < n \<and> n \<le> length s \<and> d + brace_depth (take n s) = 0 \<and>
     (\<forall>m. 0 < m \<and> m < n \<longrightarrow> d + brace_depth (take m s) \<noteq> 0)"
proof (induction s arbitrary: d n)
  case Nil
  then show ?case by auto
next
  case (Cons c cs)
  let ?d = "d + brace_depth [c]"
  show ?case
  proof (cases "?d = 0")
    case True
    have "n = 1" if "0 < n" "\<forall>m. 0 < m \<and> m < n \<longrightarrow> d + brace_depth (take m (c # cs)) \<noteq> 0"
    proof (rule ccontr)
      assume "n \<noteq> 1"
      then have "0 < (1::nat) \<and> 1 < n" using that by simp
      then have "d + brace_depth (take 1 (c # cs)) \<noteq> 0" using that(2) by blast
      then show False using True by simp
    qed
    then show ?thesis using True by auto
  next
    case False
    have "first_zero d (c # cs) = Some n \<longleftrightarrow> (\<exists>k. n = Suc k \<and> first_zero ?d cs = Some k)"
      using False by auto
    also have "\<dots> \<longleftrightarrow> (\<exists>k. n = Suc k \<and> 0 < k \<and> k \<le> length cs \<and> ?d + brace_depth (take k cs) = 0 \<and>
         (\<forall>m. 0 < m \<and> m < k \<longrightarrow> ?d + brace_depth (take m cs) \<noteq> 0))"
      by (simp add: Cons.IH)
    also have "\<dots> \<longleftrightarrow> 0 < n \<and> n \<le> length (c # cs) \<and> d + brace_depth (take n (c # cs)) = 0 \<and>
     (\<forall>m. 0 < m \<and> m < n \<longrightarrow> d + brace_depth (take m (c # cs)) \<noteq> 0)" (is "?L \<longleftrightarrow> ?R")
    proof
      assume ?L
      then obtain k where k: "n = Suc k" "0 < k" "k \<le> length cs" "?d + brace_depth (take k cs) = 0"
        "\<forall>m. 0 < m \<and> m < k \<longrightarrow> ?d + brace_depth (take m cs) \<noteq> 0" by blast
      have "d + brace_depth (take m (c # cs)) \<noteq> 0" if "0 < m" "m < n" for m
      proof (cases m)
        case 0 then show ?thesis using that by simp
      next
        case (Suc j)
        show ?thesis
        proof (cases "j = 0")
          case True then show ?thesis using Suc False by simp
        next
          case jpos: False
          then have "?d + brace_depth (take j cs) \<noteq> 0" using k(5) Suc that k(1) by simp
          then show ?thesis using Suc by simp
        qed
      qed
      then show ?R using k by simp
    next
      assume R: ?R
      then obtain k where k: "n = Suc k" by (cases n) auto
      have "k \<noteq> 0"
      proof
        assume "k = 0"
        then have "d + brace_depth (take n (c # cs)) = ?d" using k by simp
        then show False using R False by simp
      qed
      moreover have "?d + brace_depth (take m cs) \<noteq> 0" if "0 < m" "m < k" for m
      proof -
        have "0 < Suc m \<and> Suc m < n" using that k by simp
        then have "d + brace_depth (take (Suc m) (c # cs)) \<noteq> 0" using R by blast
        then show ?thesis by simp
      qed
      ultimately show ?L using R k by simp
    qed
    finally show ?thesis .
  qed
qed

lemma first_zero_None_iff:
  "first_zero d s = None \<longleftrightarrow>
     (\<forall>n. 0 < n \<and> n \<le> length s \<longrightarrow> d + brace_depth (take n s) \<noteq> 0)"
proof (induction s arbitrary: d)
  case Nil
  then show ?case by auto
next
  case (Cons c cs)
  let ?d = "d + brace_depth [c]"
  show ?case
  proof (cases "?d = 0")
    case True
    have "0 < (1::nat) \<and> 1 \<le> length (c # cs) \<and> d + brace_depth (take 1 (c # cs)) = 0"
      using True by simp
    then show ?thesis using True by (metis first_zero.simps(2) option.distinct(1))
  next
    case False
    have "(\<forall>n. 0 < n \<and> n \<le> length (c # cs) \<longrightarrow> d + brace_depth (take n (c # cs)) \<noteq> 0)
      \<longleftrightarrow> (\<forall>k. 0 < k \<and> k \<le> length cs \<longrightarrow> ?d + brace_depth (take k cs) \<noteq> 0)" (is "?A \<longleftrightarrow> ?B")
    proof
      assume A: ?A
      show ?B
      proof (intro allI impI)
        fix k assume "0 < k \<and> k \<le> length cs"
        then have "0 < Suc k \<and> Suc k \<le> length (c # cs)" by simp
        then have "d + brace_depth (take (Suc k) (c # cs)) \<noteq> 0" using A by blast
        then show "?d + brace_depth (take k cs) \<noteq> 0" by simp
      qed
    next
      assume B: ?B
      show ?A
      proof (intro allI impI)
        fix n assume n: "0 < n \<and> n \<le> length (c # cs)"
        then obtain k where k: "n = Suc k" by (cases n) auto
        show "d + brace_depth (take n (c # cs)) \<noteq> 0"
        proof (cases "k = 0")
          case True then show ?thesis using k False by simp
        next
          case kpos: False
          then have "?d + brace_depth (take k cs) \<noteq> 0" using B n k by simp
          then show ?thesis using k by simp
        qed
      qed
    qed
    then show ?thesis using False Cons.IH [of ?d] by simp
  qed
qed

lemma extract_traced_char:
  "extract_traced loads s =
     (if CHR ''{'' \<notin> set s then ([], Inl (ValueError ''No JSON object found in response.''))
      else case first_balanced_block s of
             None \<Rightarrow> ([], Inl (ValueError ''No valid JSON object found in response.''))
           | Some b \<Rightarrow> parse_block loads b)"
proof (cases "str_find (CHR ''{'') s")
  case None
  moreover from None have "CHR ''{'' \<notin> set s" by (simp add: str_find_None)
  ultimately show ?thesis by (simp add: extract_traced_def)
next
  case (Some start)
  from str_find_Some [OF Some] have st: "start < length s" "s ! start = CHR ''{''" by simp_all
  have mem: "CHR ''{'' \<in> set s" using Some str_find_None [of "CHR ''{''" s] by auto
  define pre where "pre = take start s"
  define rest where "rest = drop (Suc start) s"
  have s: "s = pre @ CHR ''{'' # rest"
    using id_take_nth_drop [OF st(1)] st(2) by (simp add: pre_def rest_def)
  have len: "start = length pre"
    using st by (simp add: pre_def)
  have dr: "drop start s = CHR ''{'' # rest" using s len by simp
  have one: "scan_braces loads s start start 0 = scan_braces loads s start (start + 1) 1"
    using scan_braces_step [OF s len, of loads start 0] by simp
  have s2: "s = (pre @ [CHR ''{'']) @ rest" "start + 1 = length (pre @ [CHR ''{''])"
    using s len by simp_all
  have two: "scan_braces loads s start (start + 1) 1 =
     (case first_zero 1 rest of
        None \<Rightarrow> ([], Inl (ValueError ''No valid JSON object found in response.''))
      | Some n \<Rightarrow> parse_block loads (take (start + 1 + n - start) (drop start s)))"
    by (rule scan_braces_first_zero [OF s2]) simp
  show ?thesis
    using mem Some one two
    by (simp add: extract_traced_def first_balanced_block_def dr split: option.splits)
qed


text \<open>
  Claim C4, as the code has it. On a text without \<^verbatim>\<open>{\<close>, \<^verbatim>\<open>extract_first_json_block\<close>
  raises ``No JSON object found in response.'' and does not call \<^verbatim>\<open>json.loads\<close>.
  Otherwise it counts braces from the first \<^verbatim>\<open>{\<close>. If the count comes back to zero,
  there is exactly one call of \<^verbatim>\<open>json.loads\<close>, on the first balanced block, and the
  function returns its value, or raises ``No valid JSON object found in response.'' when
  the call raises \<^verbatim>\<open>JSONDecodeError\<close>, or lets any other exception of the call pass to
  its caller; in no case does it look at the rest of the text. If the count never comes
  back to zero, \<^verbatim>\<open>json.loads\<close> is not called at all and ``No valid JSON object found in
  response.'' is raised. So, as long as \<^verbatim>\<open>json.loads\<close> does not itself raise a
  \<^verbatim>\<open>ValueError\<close> with the first message, that error is raised exactly when the text has
  no \<^verbatim>\<open>{\<close>.
\<close>

theorem extract_first_json_block_attempts:
  "(CHR ''{'' \<notin> set s \<longrightarrow>
      loads_calls loads s = [] \<and>
      extract_first_json_block loads s = Inl (ValueError ''No JSON object found in response.'')) \<and>
   (CHR ''{'' \<in> set s \<longrightarrow>
      (case first_balanced_block s of
         None \<Rightarrow>
           loads_calls loads s = [] \<and>
           extract_first_json_block loads s =
             Inl (ValueError ''No valid JSON object found in response.'')
       | Some b \<Rightarrow>
           loads_calls loads s = [b] \<and>
           extract_first_json_block loads s =
             (case loads b of
                Inr v \<Rightarrow> Inr v
              | Inl e \<Rightarrow>
                  if isinstance_JSONDecodeError e
                  then Inl (ValueError ''No valid JSON object found in response.'')
                  else Inl e))) \<and>
   ((\<forall>b. loads b \<noteq> Inl (ValueError ''No JSON object found in response.'')) \<longrightarrow>
      (extract_first_json_block loads s = Inl (ValueError ''No JSON object found in response.'')
         \<longleftrightarrow> CHR ''{'' \<notin> set s))"
proof -
  have 1: "loads_calls loads s = [] \<and>
      extract_first_json_block loads s = Inl (ValueError ''No JSON object found in response.'')"
    if "CHR ''{'' \<notin> set s"
    using that by (simp add: extract_first_json_block_def loads_calls_def extract_traced_char)
  have 2: "case first_balanced_block s of
         None \<Rightarrow>
           loads_calls loads s = [] \<and>
           extract_first_json_block loads s =
             Inl (ValueError ''No valid JSON object found in response.'')
       | Some b \<Rightarrow>
           loads_calls loads s = [b] \<and>
           extract_first_json_block loads s =
             (case loads b of
                Inr v \<Rightarrow> Inr v
              | Inl e \<Rightarrow>
                  if isinstance_JSONDecodeError e
                  then Inl (ValueError ''No valid JSON object found in response.'')
                  else Inl e)"
    if "CHR ''{'' \<in> set s"
    using that
    by (simp add: extract_first_json_block_def loads_calls_def extract_traced_char
        parse_block_def split: option.splits sum.splits)
  have 3: "extract_first_json_block loads s = Inl (ValueError ''No JSON object found in response.'')
         \<longleftrightarrow> CHR ''{'' \<notin> set s"
    if other: "\<forall>b. loads b \<noteq> Inl (ValueError ''No JSON object found in response.'')"
  proof (cases "CHR ''{'' \<in> set s")
    case False
    then show ?thesis
      by (simp add: extract_first_json_block_def extract_traced_char)
  next
    case True
    show ?thesis
    proof (cases "first_balanced_block s")
      case None
      with True show ?thesis
        by (simp add: extract_first_json_block_def extract_traced_char)
    next
      case (Some b)
      show ?thesis
      proof (cases "loads b")
        case (Inr v)
        with True Some show ?thesis
          by (simp add: extract_first_json_block_def extract_traced_char parse_block_def)
      next
        case (Inl e)
        with other have "e \<noteq> ValueError ''No JSON object found in response.''" by metis
        with True Some Inl show ?thesis
          by (simp add: extract_first_json_block_def extract_traced_char parse_block_def)
      qed
    qed
  qed
  from 1 2 3 show ?thesis by blast
qed

text \<open>
  The property at a text with two blocks, of which only the first is parsed, and at a
  text without braces.
\<close>

theorem extract_first_json_block_attempts_witness:
  \<open>CHR ''{'' \<in> set ''ok {"a": 1} and {"b": 2}'' \<and>
   loads_calls (json_loads_table [(''{"a": 1}'', JObj [(''a'', JInt 1)])])
     ''ok {"a": 1} and {"b": 2}'' = [''{"a": 1}''] \<and>
   extract_first_json_block (json_loads_table [(''{"a": 1}'', JObj [(''a'', JInt 1)])])
     ''ok {"a": 1} and {"b": 2}'' = Inr (JObj [(''a'', JInt 1)]) \<and>
   CHR ''{'' \<notin> set ''no braces here'' \<and>
   loads_calls (json_loads_table [(''{"a": 1}'', JObj [(''a'', JInt 1)])])
     ''no braces here'' = [] \<and>
   extract_first_json_block (json_loads_table [(''{"a": 1}'', JObj [(''a'', JInt 1)])])
     ''no braces here'' = Inl (ValueError ''No JSON object found in response.'')\<close>
proof -
  let ?T = \<open>json_loads_table [(''{"a": 1}'', JObj [(''a'', JInt 1)])]\<close>
  have other: "\<forall>b. ?T b \<noteq> Inl (ValueError ''No JSON object found in response.'')"
    by (simp add: json_loads_table_def split: option.splits)
  have n: \<open>CHR ''{'' \<notin> set ''no braces here''\<close> by simp
  from extract_first_json_block_attempts [of \<open>''no braces here''\<close> ?T] other n
  have 1: \<open>loads_calls ?T ''no braces here'' = [] \<and>
      extract_first_json_block ?T ''no braces here'' =
        Inl (ValueError ''No JSON object found in response.'')\<close>
    by blast
  from extract_first_json_block_attempts [of \<open>''ok {"a": 1} and {"b": 2}''\<close> ?T]
  have 2: \<open>loads_calls ?T ''ok {"a": 1} and {"b": 2}'' = [''{"a": 1}''] \<and>
      extract_first_json_block ?T ''ok {"a": 1} and {"b": 2}'' = Inr (JObj [(''a'', JInt 1)])\<close>
    by (simp add: first_balanced_block_def json_loads_table_def)
  from 1 2 show ?thesis by simp
qed

text \<open>
  Claim C4 as stated promises exactly one parse attempt whenever the text has a
  \<^verbatim>\<open>{\<close>; on a text whose brace is never closed there is none.
\<close>

theorem extract_first_json_block_no_attempt_counterexample:
  "CHR ''{'' \<in> set ''{ never closed'' \<and>
   length (loads_calls (json_loads_table []) ''{ never closed'') \<noteq> 1 \<and>
   extract_first_json_block (json_loads_table []) ''{ never closed'' =
     Inl (ValueError ''No valid JSON object found in response.'')"
  by (simp add: extract_first_json_block_def loads_calls_def extract_traced_char
      first_balanced_block_def)

lemma first_zero_whole:
  assumes "s \<noteq> []" "hd s = CHR ''{''" "brace_depth s = 0"
    "\<forall>m. 0 < m \<and> m < length s \<longrightarrow> brace_depth (take m s) \<noteq> 0"
  shows "first_zero 0 (s @ suf) = Some (length s)"
  using assms by (simp add: first_zero_Some_iff)

lemma str_find_append_notin:
  "c \<notin> set pre \<Longrightarrow> str_find c (pre @ c # rest) = Some (length pre)"
  by (induction pre) auto

text \<open>
  Claim C5, as the code has it. Let \<open>s\<close> be a text that \<^verbatim>\<open>json.loads\<close> parses to
  \<open>J\<close>, that starts with \<^verbatim>\<open>{\<close> and whose brace count (braces inside string values
  count too) is back to zero for the first time at its last character. Then for every
  prefix without \<^verbatim>\<open>{\<close> and every suffix, extraction parses exactly \<open>s\<close> and returns
  \<open>J\<close>.
\<close>

theorem extract_first_json_block_roundtrip:
  assumes "CHR ''{'' \<notin> set pre"
    and "s \<noteq> []" and "hd s = CHR ''{''"
    and "brace_depth s = 0"
    and "\<forall>m. 0 < m \<and> m < length s \<longrightarrow> brace_depth (take m s) \<noteq> 0"
    and "loads s = Inr J"
  shows "extract_first_json_block loads (pre @ s @ suf) = Inr J \<and>
         loads_calls loads (pre @ s @ suf) = [s]"
proof -
  obtain rest where s: "s = CHR ''{'' # rest" using assms(2,3) by (cases s) auto
  have f: "str_find (CHR ''{'') (pre @ s @ suf) = Some (length pre)"
    using str_find_append_notin [OF assms(1), of "rest @ suf"] s by simp
  have "first_balanced_block (pre @ s @ suf) = Some s"
    using f first_zero_whole [OF assms(2-5), of suf] by (simp add: first_balanced_block_def)
  moreover have "CHR ''{'' \<in> set (pre @ s @ suf)" using s by simp
  ultimately show ?thesis
    using assms(6)
    by (simp add: extract_first_json_block_def loads_calls_def extract_traced_char parse_block_def)
qed

text \<open>The property at a nested object, with braces in the prose after it.\<close>

theorem extract_first_json_block_roundtrip_witness:
  \<open>extract_first_json_block (json_loads_table [(''{"a": {"b": 1}}'', JObj [(''a'', JObj [(''b'', JInt 1)])])])
      (''Sure } here: '' @ ''{"a": {"b": 1}}'' @ '' and {{ more'') = Inr (JObj [(''a'', JObj [(''b'', JInt 1)])]) \<and>
    loads_calls (json_loads_table [(''{"a": {"b": 1}}'', JObj [(''a'', JObj [(''b'', JInt 1)])])])
      (''Sure } here: '' @ ''{"a": {"b": 1}}'' @ '' and {{ more'') = [''{"a": {"b": 1}}'']\<close>
proof -
  have \<open>first_zero 0 ''{"a": {"b": 1}}'' = Some (length ''{"a": {"b": 1}}'')\<close>
    by simp
  then have b: \<open>\<forall>m. 0 < m \<and> m < length ''{"a": {"b": 1}}'' \<longrightarrow>
      brace_depth (take m ''{"a": {"b": 1}}'') \<noteq> 0\<close>
    unfolding first_zero_Some_iff by simp
  show ?thesis
    using extract_first_json_block_roundtrip
      [of \<open>''Sure } here: ''\<close> \<open>''{"a": {"b": 1}}''\<close>
          \<open>json_loads_table [(''{"a": {"b": 1}}'', JObj [(''a'', JObj [(''b'', JInt 1)])])]\<close>
          \<open>JObj [(''a'', JObj [(''b'', JInt 1)])]\<close> \<open>'' and {{ more''\<close>, OF _ _ _ _ b]
    by (simp add: json_loads_table_def)
qed

text \<open>
  Claim C5 as stated allows prose with balanced braces: then the block of the prose is
  the first balanced block, and it is what the function returns.
\<close>

theorem extract_first_json_block_roundtrip_counterexample:
  \<open>brace_depth ''{} then '' = 0 \<and> brace_depth '' end'' = 0 \<and>
   json_loads_table [(''{}'', JObj []), (''{"a": 1}'', JObj [(''a'', JInt 1)])] ''{"a": 1}''
     = Inr (JObj [(''a'', JInt 1)]) \<and>
   extract_first_json_block
     (json_loads_table [(''{}'', JObj []), (''{"a": 1}'', JObj [(''a'', JInt 1)])])
     (''{} then '' @ ''{"a": 1}'' @ '' end'') \<noteq> Inr (JObj [(''a'', JInt 1)])\<close>
  by (simp add: extract_first_json_block_def extract_traced_char first_balanced_block_def
      parse_block_def json_loads_table_def)

lemma first_zero_no_brace:
  "\<forall>c \<in> set xs. c \<noteq> CHR ''{'' \<and> c \<noteq> CHR ''}'' \<Longrightarrow> d \<noteq> 0 \<Longrightarrow>
     first_zero d (xs @ rest) = map_option (\<lambda>k. length xs + k) (first_zero d rest)"
proof (induction xs)
  case Nil
  show ?case by (cases "first_zero d rest") simp_all
next
  case (Cons x xs)
  then have "first_zero d (xs @ rest) = map_option (\<lambda>k. length xs + k) (first_zero d rest)"
    by simp
  moreover have "first_zero d ((x # xs) @ rest) = map_option Suc (first_zero d (xs @ rest))"
    using Cons.prems by simp
  ultimately show ?case
    by (cases "first_zero d rest") simp_all
qed

lemma first_balanced_digits:
  \<open>first_balanced_block (''{"a": '' @ replicate n (CHR ''1'') @ ''}'') =
     Some (''{"a": '' @ replicate n (CHR ''1'') @ ''}'')\<close>
proof -
  let ?X = \<open>''"a": '' @ replicate n (CHR ''1'')\<close>
  have "\<forall>c \<in> set ?X. c \<noteq> CHR ''{'' \<and> c \<noteq> CHR ''}''" by auto
  from first_zero_no_brace [OF this, of 1 "''}''"]
  have "first_zero 1 (?X @ ''}'') = Some (length ?X + 1)" by simp
  then show ?thesis
    by (simp add: first_balanced_block_def)
qed

text \<open>
  An exception of \<^verbatim>\<open>json.loads\<close> that is not a \<^verbatim>\<open>JSONDecodeError\<close> leaves
  \<^verbatim>\<open>extract_first_json_block\<close>: the text with the integer of 5000 digits is one
  balanced block, it is parsed once, and the \<^verbatim>\<open>ValueError\<close> of the conversion is what
  the function raises.
\<close>

lemma extract_first_json_block_other_exception:
  "loads_calls digit_limit_loads long_integer_text = [long_integer_text] \<and>
   extract_first_json_block digit_limit_loads long_integer_text = Inl (ValueError [])"
proof -
  have b: "first_balanced_block long_integer_text = Some long_integer_text"
    unfolding long_integer_text_def by (rule first_balanced_digits)
  have \<open>CHR ''{'' \<in> set (''{"a": '' @ replicate n (CHR ''1'') @ ''}'')\<close> for n
    by simp
  then have "CHR ''{'' \<in> set long_integer_text"
    unfolding long_integer_text_def by (rule meta_spec)
  then show ?thesis
    by (simp add: extract_first_json_block_def loads_calls_def extract_traced_char
        b parse_block_def digit_limit_loads_def)
qed

lemma all_valid_strs: "all_valid (map (str_field L \<circ> JStr) xs) = Some xs"
  by (induction xs) auto

lemma str_list_field_strs: "str_list_field L (py_or (JArr (map JStr xs)) (JArr [])) = Some xs"
  by (cases xs) (simp_all add: py_or_def all_valid_strs)

lemma build_minutes_fallback:
  assumes "- 999999999 \<le> duration t div 86400000" "duration t div 86400000 \<le> 999999999"
  shows "build_minutes L t (fallback_parsing L response) =
     Inr \<lparr>minutes_meeting_id = meeting_id t, date = created_at t,
          minutes_duration = duration t,
          participants = remdups (map speaker (segments t)),
          key_points = fallback_key_points [] (split_char (CHR 0x0A) response),
          action_items = [], decisions = [], next_steps = [],
          summary = fallback_summary L response\<rparr>"
  using assms
  by (simp add: build_minutes_def fallback_parsing_def timedelta_milliseconds_def
      all_valid_strs py_or_def)

lemma and_then_Inr_iff: "and_then m f = Inr y \<longleftrightarrow> (\<exists>x. m = Inr x \<and> f x = Inr y)"
  by (cases m) auto

lemma validated_Inr_iff: "validated v = Inr x \<longleftrightarrow> v = Some x"
  by (cases v) auto

lemma py_get_Inr_iff:
  "py_get v k d = Inr x \<longleftrightarrow> (\<exists>kvs. v = JObj kvs \<and> x = (case map_of kvs k of Some w \<Rightarrow> w | None \<Rightarrow> d))"
  by (cases v) auto

lemma make_action_item_priority:
  assumes "make_action_item L item = Inr a"
  shows "\<exists>fields. item = JObj fields \<and>
           str_field L (case map_of fields ''priority'' of Some v \<Rightarrow> v | None \<Rightarrow> JStr ''medium'')
             = Some (priority a)"
  using assms
  by (auto simp add: make_action_item_def and_then_Inr_iff validated_Inr_iff py_get_Inr_iff)

lemma action_items_loop_nth:
  "action_items_loop L acc items = Inr out \<Longrightarrow>
     \<exists>new. out = acc @ new \<and> length new = length items \<and>
           (\<forall>i<length items. make_action_item L (items ! i) = Inr (new ! i))"
proof (induction items arbitrary: acc out)
  case Nil
  then show ?case by simp
next
  case (Cons item rest)
  from Cons.prems obtain a where a: "make_action_item L item = Inr a"
    and r: "action_items_loop L (acc @ [a]) rest = Inr out"
    by (auto simp add: and_then_Inr_iff)
  from Cons.IH [OF r] obtain new where new: "out = (acc @ [a]) @ new" "length new = length rest"
    "\<forall>i<length rest. make_action_item L (rest ! i) = Inr (new ! i)" by blast
  have "\<forall>i<length (item # rest). make_action_item L ((item # rest) ! i) = Inr ((a # new) ! i)"
    using a new(3) by (auto simp add: nth_Cons split: nat.splits)
  then show ?case using new by (intro exI [of _ "a # new"]) simp
qed

lemma build_minutes_action_items:
  assumes "build_minutes L t (JObj kvs) = Inr m"
  shows "action_items_loop L []
           (case map_of kvs ''action_items'' of Some v \<Rightarrow> (case py_iter v of Inr xs \<Rightarrow> xs | Inl e \<Rightarrow> []) | None \<Rightarrow> [])
         = Inr (action_items m)"
  using assms
  by (auto simp add: build_minutes_def and_then_Inr_iff validated_Inr_iff split: option.splits)



text \<open>
  What the code does with \<^verbatim>\<open>"action_items": null\<close>: the loop iterates over
  \<^verbatim>\<open>None\<close> before the line \<^verbatim>\<open>action_items = action_items or []\<close> is reached.
\<close>

lemma generate_meeting_minutes_null_action_items:
  \<open>generate_meeting_minutes
      (pylib_of [(''{"action_items": null}'', JObj [(''action_items'', JNull)])] [])
      scenario_transcript (Inr ''{"action_items": null}'') = Inl TypeError\<close>
  by (simp add: generate_meeting_minutes_def extract_first_json_block_def extract_traced_char
      first_balanced_block_def parse_block_def pylib_of_def json_loads_table_def
      build_minutes_def)


text \<open>
  Claim C9, as the code has it. When the response parses to a dict whose
  \<^verbatim>\<open>action_items\<close> is a list and minutes are returned, there is one action item per
  candidate, in order; each candidate is a dict, and the priority of its action item is
  \<^verbatim>\<open>"medium"\<close> when the candidate has no \<^verbatim>\<open>priority\<close> and is the candidate's
  \<^verbatim>\<open>priority\<close> when that is a string, whichever string it is.
\<close>

theorem action_item_priority:
  assumes "extract_first_json_block (json_loads L) response = Inr (JObj kvs)"
    and "map_of kvs ''action_items'' = Some (JArr items)"
    and "generate_meeting_minutes L t (Inr response) = Inr m"
  shows "length (action_items m) = length items \<and>
    (\<forall>i<length items. \<exists>fields. items ! i = JObj fields \<and>
       (map_of fields ''priority'' = None \<longrightarrow> priority (action_items m ! i) = ''medium'') \<and>
       (\<forall>p. map_of fields ''priority'' = Some (JStr p) \<longrightarrow> priority (action_items m ! i) = p))"
proof -
  from assms(1,3) have b: "build_minutes L t (JObj kvs) = Inr m"
    by (auto simp add: generate_meeting_minutes_def)
  from build_minutes_action_items [OF b] assms(2)
  have "action_items_loop L [] items = Inr (action_items m)" by simp
  from action_items_loop_nth [OF this]
  have len: "length (action_items m) = length items"
    and nth: "\<forall>i<length items. make_action_item L (items ! i) = Inr (action_items m ! i)"
    by auto
  have "\<exists>fields. items ! i = JObj fields \<and>
       (map_of fields ''priority'' = None \<longrightarrow> priority (action_items m ! i) = ''medium'') \<and>
       (\<forall>p. map_of fields ''priority'' = Some (JStr p) \<longrightarrow> priority (action_items m ! i) = p)"
    if "i < length items" for i
  proof -
    from nth that have "make_action_item L (items ! i) = Inr (action_items m ! i)" by blast
    from make_action_item_priority [OF this] show ?thesis by auto
  qed
  with len show ?thesis by blast
qed

text \<open>The property at two candidates, one with priority \<^verbatim>\<open>"high"\<close>, one without.\<close>

theorem action_item_priority_witness:
  \<open>map priority
     (action_items
       \<lparr>minutes_meeting_id = ''m1'', date = Datetime 2025 1 6 9 0 0 0, minutes_duration = 9000,
        participants = [''A'', ''B''], key_points = [],
        action_items =
          [\<lparr>description = ''Send report'', assignee = None, due_date = None,
            priority = ''high'', item_status = ''pending''\<rparr>,
           \<lparr>description = ''Book room'', assignee = None, due_date = None,
            priority = ''medium'', item_status = ''pending''\<rparr>],
        decisions = [], next_steps = [], summary = []\<rparr>) = [''high'', ''medium''] \<and>
   generate_meeting_minutes
     (pylib_of [(''{"action_items": [{"description": "Send report", "priority": "high"}, {"description": "Book room"}]}'',
         JObj [(''action_items'',
           JArr [JObj [(''description'', JStr ''Send report''), (''priority'', JStr ''high'')],
                 JObj [(''description'', JStr ''Book room'')]])])] [])
     scenario_transcript
     (Inr ''{"action_items": [{"description": "Send report", "priority": "high"}, {"description": "Book room"}]}'')
   = Inr \<lparr>minutes_meeting_id = ''m1'', date = Datetime 2025 1 6 9 0 0 0, minutes_duration = 9000,
        participants = [''A'', ''B''], key_points = [],
        action_items =
          [\<lparr>description = ''Send report'', assignee = None, due_date = None,
            priority = ''high'', item_status = ''pending''\<rparr>,
           \<lparr>description = ''Book room'', assignee = None, due_date = None,
            priority = ''medium'', item_status = ''pending''\<rparr>],
        decisions = [], next_steps = [], summary = []\<rparr>\<close>
proof -
  let ?r = \<open>''{"action_items": [{"description": "Send report", "priority": "high"}, {"description": "Book room"}]}''\<close>
  let ?items = \<open>[JObj [(''description'', JStr ''Send report''), (''priority'', JStr ''high'')],
                 JObj [(''description'', JStr ''Book room'')]]\<close>
  let ?L = \<open>pylib_of [(?r, JObj [(''action_items'', JArr ?items)])] []\<close>
  let ?m = \<open>\<lparr>minutes_meeting_id = ''m1'', date = Datetime 2025 1 6 9 0 0 0, minutes_duration = 9000,
        participants = [''A'', ''B''], key_points = [],
        action_items =
          [\<lparr>description = ''Send report'', assignee = None, due_date = None,
            priority = ''high'', item_status = ''pending''\<rparr>,
           \<lparr>description = ''Book room'', assignee = None, due_date = None,
            priority = ''medium'', item_status = ''pending''\<rparr>],
        decisions = [], next_steps = [], summary = []\<rparr>\<close>
  have x: "extract_first_json_block (json_loads ?L) ?r = Inr (JObj [(''action_items'', JArr ?items)])"
    by (simp add: extract_first_json_block_def extract_traced_char first_balanced_block_def
        parse_block_def pylib_of_def json_loads_table_def)
  have k: "map_of [(''action_items'', JArr ?items)] ''action_items'' = Some (JArr ?items)"
    by simp
  have g: "generate_meeting_minutes ?L scenario_transcript (Inr ?r) = Inr ?m"
    by (simp add: generate_meeting_minutes_def x build_minutes_def make_action_item_def
        scenario_transcript_def timedelta_milliseconds_def py_or_def)
  from action_item_priority [OF x k g]
  have "priority (action_items ?m ! 0) = ''high'' \<and> priority (action_items ?m ! 1) = ''medium''"
    by simp
  with g show ?thesis by simp
qed

text \<open>
  Claim C9 as stated turns an unrecognized priority into \<^verbatim>\<open>"medium"\<close>; the code keeps
  \<^verbatim>\<open>"urgent"\<close>.
\<close>

theorem action_item_priority_counterexample:
  \<open>generate_meeting_minutes
     (pylib_of [(''{"action_items": [{"description": "Fix login", "priority": "urgent"}]}'',
         JObj [(''action_items'',
           JArr [JObj [(''description'', JStr ''Fix login''), (''priority'', JStr ''urgent'')]])])] [])
     scenario_transcript
     (Inr ''{"action_items": [{"description": "Fix login", "priority": "urgent"}]}'')
   = Inr \<lparr>minutes_meeting_id = ''m1'', date = Datetime 2025 1 6 9 0 0 0, minutes_duration = 9000,
        participants = [''A'', ''B''], key_points = [],
        action_items =
          [\<lparr>description = ''Fix login'', assignee = None, due_date = None,
            priority = ''urgent'', item_status = ''pending''\<rparr>],
        decisions = [], next_steps = [], summary = []\<rparr>\<close>
  by (simp add: generate_meeting_minutes_def extract_first_json_block_def extract_traced_char
      first_balanced_block_def parse_block_def pylib_of_def json_loads_table_def
      build_minutes_def make_action_item_def scenario_transcript_def
      timedelta_milliseconds_def py_or_def)

lemma infer_speaker_names_call_raises:
  "infer_speaker_names L t (Inl e) = Inl (UnboundLocalError ''response'')"
  by (simp add: infer_speaker_names_def infer_speaker_names_try_def)

lemma infer_speaker_names_returns:
  "infer_speaker_names L t (Inr response) =
     Inr (case extract_first_json_block (json_loads L) response of
            Inr (JObj kvs) \<Rightarrow> validate_mapping [] kvs
          | _ \<Rightarrow> [])"
  by (simp add: infer_speaker_names_def infer_speaker_names_try_def
      split: sum.splits json.splits)

lemma validate_mapping_Cons:
  "validate_mapping acc ((k, v) # rest) =
     validate_mapping (case v of JStr n \<Rightarrow> AList.update k n acc | _ \<Rightarrow> acc) rest"
  by (cases v) simp_all

lemma validate_mapping_other:
  "k \<notin> fst ` set kvs \<Longrightarrow> map_of (validate_mapping acc kvs) k = map_of acc k"
proof (induction kvs arbitrary: acc)
  case Nil
  then show ?case by simp
next
  case (Cons kv rest)
  obtain l v where kv: "kv = (l, v)" by (cases kv)
  with Cons.prems have "k \<noteq> l" "k \<notin> fst ` set rest" by auto
  then show ?case
    using Cons.IH [of "case v of JStr n \<Rightarrow> AList.update l n acc | _ \<Rightarrow> acc"]
    by (simp add: kv validate_mapping_Cons update_conv' split: json.splits)
qed

lemma validate_mapping_lookup:
  "distinct (map fst kvs) \<Longrightarrow>
   map_of (validate_mapping acc kvs) k =
     (case map_of kvs k of
        Some (JStr n) \<Rightarrow> Some n
      | _ \<Rightarrow> map_of acc k)"
proof (induction kvs arbitrary: acc)
  case Nil
  then show ?case by simp
next
  case (Cons kv rest)
  obtain l v where kv: "kv = (l, v)" by (cases kv)
  let ?acc = "case v of JStr n \<Rightarrow> AList.update l n acc | _ \<Rightarrow> acc"
  from Cons.prems kv have d: "distinct (map fst rest)" and nl: "l \<notin> fst ` set rest" by auto
  show ?case
  proof (cases "k = l")
    case True
    then have "map_of (validate_mapping acc (kv # rest)) k = map_of ?acc l"
      using validate_mapping_other [OF nl, of ?acc] by (simp add: kv validate_mapping_Cons)
    then show ?thesis using True
      by (simp add: kv update_conv' split: json.splits)
  next
    case False
    then show ?thesis
      using Cons.IH [OF d, of ?acc]
      by (simp add: kv validate_mapping_Cons update_conv' split: json.splits option.splits)
  qed
qed

lemma infer_speaker_names_entries:
  assumes "extract_first_json_block (json_loads L) response = Inr (JObj kvs)"
    and "distinct (map fst kvs)"
  shows "\<exists>vm. infer_speaker_names L t (Inr response) = Inr vm \<and>
           (\<forall>k n. map_of vm k = Some n \<longleftrightarrow> map_of kvs k = Some (JStr n))"
proof -
  have "infer_speaker_names L t (Inr response) = Inr (validate_mapping [] kvs)"
    using assms(1) by (simp add: infer_speaker_names_returns)
  moreover have "map_of (validate_mapping [] kvs) k = Some n \<longleftrightarrow> map_of kvs k = Some (JStr n)"
    for k n
    using validate_mapping_lookup [OF assms(2), of "[]" k]
    by (auto split: option.splits json.splits)
  ultimately show ?thesis by blast
qed

text \<open>
  Claim C6 says that \<^verbatim>\<open>infer_speaker_names\<close> returns the empty mapping on any internal
  error, the failure of the completion call included. When the call raises, the
  function raises \<^verbatim>\<open>UnboundLocalError\<close> instead. (On every text the call returns it
  does return a mapping, see \<open>infer_speaker_names_returns\<close> and
  \<open>infer_speaker_names_entries\<close>.)
\<close>

theorem infer_speaker_names_unbound_response:
  "infer_speaker_names (pylib_of [] []) scenario_transcript
     (Inl (OtherError ''Connection refused'')) = Inl (UnboundLocalError ''response'')"
  by (rule infer_speaker_names_call_raises)

lemma events_loop_all_droppable:
  "\<forall>c \<in> set cands. droppable L c \<Longrightarrow>
     events_loop L acc cands = Inr (acc @ concat (map (kept L) cands))"
  by (induction cands arbitrary: acc) (auto simp add: droppable_def kept_def split: sum.splits)

lemma events_loop_members:
  "events_loop L acc cands = Inr out \<Longrightarrow> ev \<in> set out \<Longrightarrow>
     ev \<in> set acc \<or> (\<exists>c \<in> set cands. make_event L c = Inr ev)"
proof (induction cands arbitrary: acc)
  case Nil
  then show ?case by simp
next
  case (Cons c rest)
  show ?case
  proof (cases "make_event L c")
    case (Inr e)
    with Cons.prems have "events_loop L (acc @ [e]) rest = Inr out" by simp
    from Cons.IH [OF this Cons.prems(2)] Inr show ?thesis by auto
  next
    case (Inl x)
    with Cons.prems have "events_loop L acc rest = Inr out"
      by (simp split: if_splits)
    from Cons.IH [OF this Cons.prems(2)] show ?thesis by auto
  qed
qed

lemma parse_datetime_Inr:
  "parse_datetime L v = Inr d \<Longrightarrow>
     \<exists>s. v = JStr s \<and> (strptime L s ''%Y-%m-%d %H:%M'' = Some d \<or>
                         strptime L s ''%Y-%m-%d %H:%M:%S'' = Some d)"
  by (cases v) (auto simp add: parse_datetime_def split: option.splits if_splits)

lemma py_getitem_Inr_iff:
  "py_getitem v k = Inr x \<longleftrightarrow> (\<exists>kvs. v = JObj kvs \<and> map_of kvs k = Some x)"
  by (cases v) (auto split: option.splits)

lemma make_event_times:
  assumes "make_event L c = Inr ev"
  shows "\<exists>fields s e. c = JObj fields \<and>
           map_of fields ''start_time'' = Some (JStr s) \<and>
           map_of fields ''end_time'' = Some (JStr e) \<and>
           (strptime L s ''%Y-%m-%d %H:%M'' = Some (start_time ev) \<or>
            strptime L s ''%Y-%m-%d %H:%M:%S'' = Some (start_time ev)) \<and>
           (strptime L e ''%Y-%m-%d %H:%M'' = Some (end_time ev) \<or>
            strptime L e ''%Y-%m-%d %H:%M:%S'' = Some (end_time ev))"
proof -
  from assms obtain sv ds evv de where
    g: "py_getitem c ''start_time'' = Inr sv" "parse_datetime L sv = Inr ds"
       "py_getitem c ''end_time'' = Inr evv" "parse_datetime L evv = Inr de"
    and t: "start_time ev = ds" "end_time ev = de"
    by (auto simp add: make_event_def and_then_Inr_iff validated_Inr_iff)
  from g(1,3) obtain fields where f: "c = JObj fields"
    "map_of fields ''start_time'' = Some sv" "map_of fields ''end_time'' = Some evv"
    by (auto simp add: py_getitem_Inr_iff)
  from parse_datetime_Inr [OF g(2)] parse_datetime_Inr [OF g(4)] f t show ?thesis
    by auto
qed

lemma extract_block_parsed:
  assumes "first_balanced_block s = Some b" "loads b = Inr v"
  shows "extract_first_json_block loads s = Inr v"
proof -
  from assms(1) obtain n where "str_find (CHR ''{'') s = Some n"
    by (auto simp add: first_balanced_block_def split: option.splits)
  from str_find_Some [OF this] have "CHR ''{'' \<in> set s"
    by (metis nth_mem)
  with assms show ?thesis
    by (simp add: extract_first_json_block_def extract_traced_char parse_block_def)
qed

lemma extract_events_null_start:
  "extract_first_json_block (json_loads events_lib) events_null_start =
     Inr (JObj [(''events'', JArr [sync_candidate,
            JObj [(''summary'', JStr ''Review''), (''start_time'', JNull),
                  (''end_time'', JStr ''2025-01-10 10:00'')]])])"
  apply (rule extract_block_parsed [where b = events_null_start])
   apply (simp add: events_null_start_def first_balanced_block_def)
  apply (simp add: events_lib_def pylib_of_def json_loads_table_def)
  done


lemma extract_events_bad_start:
  "extract_first_json_block (json_loads events_lib) events_bad_start =
     Inr (JObj [(''events'', JArr [sync_candidate,
            JObj [(''summary'', JStr ''Review''), (''start_time'', JStr ''next Thursday''),
                  (''end_time'', JStr ''2025-01-10 10:00'')]])])"
  apply (rule extract_block_parsed [where b = events_bad_start])
   apply (simp add: events_bad_start_def first_balanced_block_def)
  apply (simp add: events_lib_def pylib_of_def json_loads_table_def events_bad_start_def
      events_null_start_def)
  done

lemma extract_events_reversed:
  "extract_first_json_block (json_loads events_lib) events_reversed =
     Inr (JObj [(''events'', JArr
            [JObj [(''summary'', JStr ''Retro''), (''start_time'', JStr ''2025-01-09 15:00''),
                   (''end_time'', JStr ''2025-01-09 14:00'')]])])"
  apply (rule extract_block_parsed [where b = events_reversed])
   apply (simp add: events_reversed_def first_balanced_block_def)
  apply (simp add: events_lib_def pylib_of_def json_loads_table_def events_bad_start_def
      events_null_start_def events_reversed_def)
  done

lemma make_event_sync: "make_event events_lib sync_candidate = Inr sync_event"
  by (simp add: make_event_def sync_candidate_def sync_event_def parse_datetime_def
      events_lib_def pylib_of_def)

lemma and_then_Inl_iff:
  "and_then m f = Inl e \<longleftrightarrow> m = Inl e \<or> (\<exists>x. m = Inr x \<and> f x = Inl e)"
  by (cases m) auto

lemma validated_Inl_iff: "validated v = Inl e \<longleftrightarrow> v = None \<and> e = ValidationError"
  by (cases v) auto

lemma timestamps_are_text_droppable:
  assumes "timestamps_are_text c"
  shows "droppable L c"
proof -
  from assms obtain kvs where c: "c = JObj kvs"
    and s: "text_or_missing (map_of kvs ''start_time'')"
    and e: "text_or_missing (map_of kvs ''end_time'')"
    by (cases c) auto
  have p: "\<exists>d. parse_datetime L (JStr x) = Inr d \<or>
      (\<exists>msg. parse_datetime L (JStr x) = Inl (ValueError msg))" for x
    by (auto simp add: parse_datetime_def split: option.splits)
  show ?thesis
  proof (cases "make_event L c")
    case (Inr ev)
    then show ?thesis by (simp add: droppable_def)
  next
    case (Inl err)
    have "isinstance_ValueError err \<or> isinstance_KeyError err"
    proof (cases "map_of kvs ''start_time''")
      case None
      with Inl c show ?thesis by (auto simp add: make_event_def)
    next
      case (Some sv)
      with s obtain x where sv: "sv = JStr x" by (cases sv) auto
      show ?thesis
      proof (cases "parse_datetime L (JStr x)")
        case l: (Inl e1)
        with p [of x] Inl c Some sv show ?thesis by (auto simp add: make_event_def)
      next
        case ds: (Inr d1)
        show ?thesis
        proof (cases "map_of kvs ''end_time''")
          case None
          with Inl c Some sv ds show ?thesis by (auto simp add: make_event_def)
        next
          case es: (Some evv)
          with e obtain y where evv: "evv = JStr y" by (cases evv) auto
          show ?thesis
          proof (cases "parse_datetime L (JStr y)")
            case l: (Inl e2)
            with p [of y] Inl c Some sv ds es evv show ?thesis
              by (auto simp add: make_event_def)
          next
            case de: (Inr d2)
            from Inl c Some sv ds es evv de have "err = ValidationError"
              by (auto simp add: make_event_def and_then_Inl_iff validated_Inl_iff)
            then show ?thesis by simp
          qed
        qed
      qed
    qed
    with Inl show ?thesis by (simp add: droppable_def)
  qed
qed

lemma extract_calendar_events_drops:
  assumes "extract_first_json_block (json_loads L) response = Inr (JObj kvs)"
    and "map_of kvs ''events'' = Some (JArr cands)"
    and "\<forall>c \<in> set cands. timestamps_are_text c"
  shows "extract_calendar_events L t m (Inr response) = concat (map (kept L) cands)"
proof -
  from assms(3) have "\<forall>c \<in> set cands. droppable L c"
    by (auto intro: timestamps_are_text_droppable)
  from events_loop_all_droppable [OF this, of "[]"] assms(1,2) show ?thesis
    by (simp add: extract_calendar_events_def)
qed


text \<open>
  Claim C7 says that a candidate whose timestamp fails to parse is dropped and the
  others are kept. With a valid candidate followed by one whose \<^verbatim>\<open>start_time\<close> is
  \<^verbatim>\<open>null\<close>, \<^verbatim>\<open>strptime\<close> raises \<^verbatim>\<open>TypeError\<close>, which the handler of the loop does
  not catch, and the function returns no event at all. (With timestamps that are strings
  or missing the candidates are handled one by one, see
  \<open>extract_calendar_events_drops\<close> and \<open>extract_calendar_events_bad_start\<close>.)
\<close>

theorem extract_calendar_events_null_start:
  "extract_calendar_events events_lib scenario_transcript None (Inr events_null_start) = []"
  by (simp add: extract_calendar_events_def extract_events_null_start make_event_sync)
     (simp add: make_event_def parse_datetime_def)

lemma extract_calendar_events_bad_start:
  "extract_calendar_events events_lib scenario_transcript None (Inr events_bad_start) =
     [sync_event]"
proof -
  have "extract_calendar_events events_lib scenario_transcript None (Inr events_bad_start) =
      concat (map (kept events_lib) [sync_candidate,
            JObj [(''summary'', JStr ''Review''), (''start_time'', JStr ''next Thursday''),
                  (''end_time'', JStr ''2025-01-10 10:00'')]])"
    by (rule extract_calendar_events_drops [OF extract_events_bad_start])
       (simp_all add: sync_candidate_def)
  also have "\<dots> = [sync_event]"
    by (simp add: kept_def make_event_sync)
       (simp add: make_event_def parse_datetime_def events_lib_def pylib_of_def)
  finally show ?thesis .
qed

lemma extract_calendar_events_candidates:
  "extract_calendar_events L t m completion =
     (case candidates L completion of
        None \<Rightarrow> []
      | Some cands \<Rightarrow> (case events_loop L [] cands of Inl e \<Rightarrow> [] | Inr evs \<Rightarrow> evs))"
proof (cases completion)
  case (Inl e)
  then show ?thesis by (simp add: extract_calendar_events_def candidates_def)
next
  case (Inr response)
  show ?thesis
  proof (cases "extract_first_json_block (json_loads L) response")
    case (Inl e)
    with Inr show ?thesis by (simp add: extract_calendar_events_def candidates_def)
  next
    case parsed: (Inr parsed)
    show ?thesis
    proof (cases "py_get parsed ''events'' (JArr [])")
      case (Inl e)
      with Inr parsed show ?thesis by (simp add: extract_calendar_events_def candidates_def)
    next
      case v: (Inr v)
      show ?thesis
      proof (cases "py_iter v")
        case (Inl e)
        with Inr parsed v show ?thesis
          by (simp add: extract_calendar_events_def candidates_def)
      next
        case cands: (Inr cands)
        with Inr parsed v show ?thesis
          by (simp add: extract_calendar_events_def candidates_def)
      qed
    qed
  qed
qed

lemma parse_datetime_str:
  "strptime L s ''%Y-%m-%d %H:%M'' = Some d \<or>
   strptime L s ''%Y-%m-%d %H:%M'' = None \<and> strptime L s ''%Y-%m-%d %H:%M:%S'' = Some d
   \<Longrightarrow> parse_datetime L (JStr s) = Inr d"
  by (auto simp add: parse_datetime_def)

text \<open>
  Claim C8, as the code has it. When the candidates of the response cannot be read, no
  event is returned. Otherwise every returned event is the event made from one of the
  candidates of the response, a dict whose \<^verbatim>\<open>start_time\<close> and \<^verbatim>\<open>end_time\<close> are
  strings that parse in one of the two formats, and it carries the two parsed times.
  When the \<^verbatim>\<open>try\<close> block of every candidate returns or raises an exception the loop
  catches, as it does for every candidate whose timestamps are strings or missing, the
  list returned is exactly what the candidates contribute, in their order. What a
  candidate contributes
  does not depend on the order of its two times: a dict whose timestamps parse, to any two
  times, and whose other fields are valid contributes its event. Start and end are never
  compared.
\<close>

theorem extract_calendar_events_times:
  "(candidates L completion = None \<longrightarrow> extract_calendar_events L t m completion = []) \<and>
   (\<forall>cands. candidates L completion = Some cands \<longrightarrow>
      (\<forall>ev \<in> set (extract_calendar_events L t m completion).
         \<exists>fs s e. JObj fs \<in> set cands \<and> make_event L (JObj fs) = Inr ev \<and>
           map_of fs ''start_time'' = Some (JStr s) \<and>
           map_of fs ''end_time'' = Some (JStr e) \<and>
           (strptime L s ''%Y-%m-%d %H:%M'' = Some (start_time ev) \<or>
            strptime L s ''%Y-%m-%d %H:%M:%S'' = Some (start_time ev)) \<and>
           (strptime L e ''%Y-%m-%d %H:%M'' = Some (end_time ev) \<or>
            strptime L e ''%Y-%m-%d %H:%M:%S'' = Some (end_time ev))) \<and>
      ((\<forall>c \<in> set cands. droppable L c) \<longrightarrow>
         extract_calendar_events L t m completion = concat (map (kept L) cands))) \<and>
   (timestamps_are_text c0 \<longrightarrow> droppable L c0) \<and>
   (map_of fs0 ''start_time'' = Some (JStr s0) \<and>
    map_of fs0 ''end_time'' = Some (JStr e0) \<and>
    (strptime L s0 ''%Y-%m-%d %H:%M'' = Some ds \<or>
     strptime L s0 ''%Y-%m-%d %H:%M'' = None \<and> strptime L s0 ''%Y-%m-%d %H:%M:%S'' = Some ds) \<and>
    (strptime L e0 ''%Y-%m-%d %H:%M'' = Some de \<or>
     strptime L e0 ''%Y-%m-%d %H:%M'' = None \<and> strptime L e0 ''%Y-%m-%d %H:%M:%S'' = Some de) \<and>
    str_field L (case map_of fs0 ''summary'' of Some v \<Rightarrow> v | None \<Rightarrow> JStr []) = Some sm \<and>
    str_field L (case map_of fs0 ''description'' of Some v \<Rightarrow> v | None \<Rightarrow> JStr []) = Some dsc \<and>
    str_list_field L (case map_of fs0 ''attendees'' of Some v \<Rightarrow> v | None \<Rightarrow> JArr []) = Some att \<and>
    opt_str_field L (case map_of fs0 ''location'' of Some v \<Rightarrow> v | None \<Rightarrow> JNull) = Some loc
    \<longrightarrow>
      kept L (JObj fs0) =
        [\<lparr>event_summary = sm, event_description = dsc, start_time = ds, end_time = de,
          attendees = att, location = loc, reminders = default_reminders\<rparr>])"
proof (intro conjI allI impI ballI)
  assume "candidates L completion = None"
  then show "extract_calendar_events L t m completion = []"
    by (simp add: extract_calendar_events_candidates)
next
  fix cands ev
  assume c: "candidates L completion = Some cands"
    and mem: "ev \<in> set (extract_calendar_events L t m completion)"
  from c mem obtain out where loop: "events_loop L [] cands = Inr out" and out: "ev \<in> set out"
    by (cases "events_loop L [] cands") (auto simp add: extract_calendar_events_candidates)
  from events_loop_members [OF loop out] obtain cand where
    cand: "cand \<in> set cands" "make_event L cand = Inr ev"
    by auto
  from make_event_times [OF cand(2)] cand
  show "\<exists>fs s e. JObj fs \<in> set cands \<and> make_event L (JObj fs) = Inr ev \<and>
           map_of fs ''start_time'' = Some (JStr s) \<and>
           map_of fs ''end_time'' = Some (JStr e) \<and>
           (strptime L s ''%Y-%m-%d %H:%M'' = Some (start_time ev) \<or>
            strptime L s ''%Y-%m-%d %H:%M:%S'' = Some (start_time ev)) \<and>
           (strptime L e ''%Y-%m-%d %H:%M'' = Some (end_time ev) \<or>
            strptime L e ''%Y-%m-%d %H:%M:%S'' = Some (end_time ev))"
    by blast
next
  fix cands
  assume c: "candidates L completion = Some cands"
    and "\<forall>c \<in> set cands. droppable L c"
  from events_loop_all_droppable [OF this(2), of "[]"] c
  show "extract_calendar_events L t m completion = concat (map (kept L) cands)"
    by (simp add: extract_calendar_events_candidates)
next
  assume "timestamps_are_text c0"
  then show "droppable L c0" by (rule timestamps_are_text_droppable)
next
  assume a: "map_of fs0 ''start_time'' = Some (JStr s0) \<and>
    map_of fs0 ''end_time'' = Some (JStr e0) \<and>
    (strptime L s0 ''%Y-%m-%d %H:%M'' = Some ds \<or>
     strptime L s0 ''%Y-%m-%d %H:%M'' = None \<and> strptime L s0 ''%Y-%m-%d %H:%M:%S'' = Some ds) \<and>
    (strptime L e0 ''%Y-%m-%d %H:%M'' = Some de \<or>
     strptime L e0 ''%Y-%m-%d %H:%M'' = None \<and> strptime L e0 ''%Y-%m-%d %H:%M:%S'' = Some de) \<and>
    str_field L (case map_of fs0 ''summary'' of Some v \<Rightarrow> v | None \<Rightarrow> JStr []) = Some sm \<and>
    str_field L (case map_of fs0 ''description'' of Some v \<Rightarrow> v | None \<Rightarrow> JStr []) = Some dsc \<and>
    str_list_field L (case map_of fs0 ''attendees'' of Some v \<Rightarrow> v | None \<Rightarrow> JArr []) = Some att \<and>
    opt_str_field L (case map_of fs0 ''location'' of Some v \<Rightarrow> v | None \<Rightarrow> JNull) = Some loc"
  then have "parse_datetime L (JStr s0) = Inr ds" "parse_datetime L (JStr e0) = Inr de"
    by (auto intro: parse_datetime_str)
  with a show "kept L (JObj fs0) =
        [\<lparr>event_summary = sm, event_description = dsc, start_time = ds, end_time = de,
          attendees = att, location = loc, reminders = default_reminders\<rparr>]"
    by (simp add: kept_def make_event_def)
qed

text \<open>
  Claim C8 as stated says start before end for every returned event; a candidate that
  ends an hour before it starts is returned.
\<close>

theorem extract_calendar_events_times_counterexample:
  "extract_calendar_events events_lib scenario_transcript None (Inr events_reversed) =
     [\<lparr>event_summary = ''Retro'', event_description = [],
       start_time = Datetime 2025 1 9 15 0 0 0, end_time = Datetime 2025 1 9 14 0 0 0,
       attendees = [], location = None, reminders = default_reminders\<rparr>] \<and>
   \<not> datetime_less (Datetime 2025 1 9 15 0 0 0) (Datetime 2025 1 9 14 0 0 0)"
  by (simp add: extract_calendar_events_def extract_events_reversed)
     (simp add: make_event_def parse_datetime_def events_lib_def pylib_of_def
        datetime_less_def)

text \<open>The property at that candidate.\<close>

theorem extract_calendar_events_times_witness:
  "candidates events_lib (Inr events_reversed) =
     Some [JObj [(''summary'', JStr ''Retro''), (''start_time'', JStr ''2025-01-09 15:00''),
                 (''end_time'', JStr ''2025-01-09 14:00'')]] \<and>
   extract_calendar_events events_lib scenario_transcript None (Inr events_reversed) =
     [\<lparr>event_summary = ''Retro'', event_description = [],
       start_time = Datetime 2025 1 9 15 0 0 0, end_time = Datetime 2025 1 9 14 0 0 0,
       attendees = [], location = None, reminders = default_reminders\<rparr>] \<and>
   (\<exists>fs s e.
      JObj fs \<in> set [JObj [(''summary'', JStr ''Retro''),
                            (''start_time'', JStr ''2025-01-09 15:00''),
                            (''end_time'', JStr ''2025-01-09 14:00'')]] \<and>
      make_event events_lib (JObj fs) =
        Inr \<lparr>event_summary = ''Retro'', event_description = [],
             start_time = Datetime 2025 1 9 15 0 0 0, end_time = Datetime 2025 1 9 14 0 0 0,
             attendees = [], location = None, reminders = default_reminders\<rparr> \<and>
      map_of fs ''start_time'' = Some (JStr s) \<and> map_of fs ''end_time'' = Some (JStr e) \<and>
      (strptime events_lib s ''%Y-%m-%d %H:%M'' = Some (Datetime 2025 1 9 15 0 0 0) \<or>
       strptime events_lib s ''%Y-%m-%d %H:%M:%S'' = Some (Datetime 2025 1 9 15 0 0 0)) \<and>
      (strptime events_lib e ''%Y-%m-%d %H:%M'' = Some (Datetime 2025 1 9 14 0 0 0) \<or>
       strptime events_lib e ''%Y-%m-%d %H:%M:%S'' = Some (Datetime 2025 1 9 14 0 0 0)))"
proof -
  let ?ev = "\<lparr>event_summary = ''Retro'', event_description = [],
       start_time = Datetime 2025 1 9 15 0 0 0, end_time = Datetime 2025 1 9 14 0 0 0,
       attendees = [], location = None, reminders = default_reminders\<rparr>"
  let ?fs = "[(''summary'', JStr ''Retro''), (''start_time'', JStr ''2025-01-09 15:00''),
              (''end_time'', JStr ''2025-01-09 14:00'')]"
  note inst = extract_calendar_events_times
    [where L = events_lib and completion = "Inr events_reversed" and t = scenario_transcript
       and m = None and ?c0.0 = "JObj ?fs" and ?fs0.0 = ?fs
       and ?s0.0 = "''2025-01-09 15:00''" and ?e0.0 = "''2025-01-09 14:00''"
       and ds = "Datetime 2025 1 9 15 0 0 0" and de = "Datetime 2025 1 9 14 0 0 0"
       and sm = "''Retro''" and dsc = "[]" and att = "[]" and loc = None]
  have c: "candidates events_lib (Inr events_reversed) = Some [JObj ?fs]"
    by (simp add: candidates_def extract_events_reversed)
  have s: "strptime events_lib ''2025-01-09 15:00'' ''%Y-%m-%d %H:%M'' = Some (Datetime 2025 1 9 15 0 0 0)"
    "strptime events_lib ''2025-01-09 14:00'' ''%Y-%m-%d %H:%M'' = Some (Datetime 2025 1 9 14 0 0 0)"
    by (simp_all add: events_lib_def pylib_of_def)
  from inst s have k: "kept events_lib (JObj ?fs) = [?ev]"
    by simp
  have "timestamps_are_text (JObj ?fs)" by simp
  with inst have "\<forall>c \<in> set [JObj ?fs]. droppable events_lib c" by simp
  with inst c have "extract_calendar_events events_lib scenario_transcript None
      (Inr events_reversed) = concat (map (kept events_lib) [JObj ?fs])"
    by blast
  then have out: "extract_calendar_events events_lib scenario_transcript None
      (Inr events_reversed) = [?ev]"
    by (simp add: k)
  then have "?ev \<in> set (extract_calendar_events events_lib scenario_transcript None
      (Inr events_reversed))"
    by simp
  with inst c have "\<exists>fs s e. JObj fs \<in> set [JObj ?fs] \<and>
      make_event events_lib (JObj fs) = Inr ?ev \<and>
      map_of fs ''start_time'' = Some (JStr s) \<and> map_of fs ''end_time'' = Some (JStr e) \<and>
      (strptime events_lib s ''%Y-%m-%d %H:%M'' = Some (start_time ?ev) \<or>
       strptime events_lib s ''%Y-%m-%d %H:%M:%S'' = Some (start_time ?ev)) \<and>
      (strptime events_lib e ''%Y-%m-%d %H:%M'' = Some (end_time ?ev) \<or>
       strptime events_lib e ''%Y-%m-%d %H:%M:%S'' = Some (end_time ?ev))"
    by blast
  with c out show ?thesis by simp
qed

lemma relabel_segments_map:
  "relabel_segments M segs = map (\<lambda>s. s\<lparr>speaker := relabeled_id M (speaker s)\<rparr>) segs"
  by (induction segs) (auto simp add: relabeled_id_def split: option.splits)

lemma relabel_speakers_map:
  "relabel_speakers M sps = map (\<lambda>p. p\<lparr>speaker_id := relabeled_id M (speaker_id p)\<rparr>) sps"
  by (induction sps) (auto simp add: relabeled_id_def split: option.splits)

lemma relabel_eq:
  "relabel M t = t\<lparr>segments := map (\<lambda>s. s\<lparr>speaker := relabeled_id M (speaker s)\<rparr>) (segments t),
                   speakers := map (\<lambda>p. p\<lparr>speaker_id := relabeled_id M (speaker_id p)\<rparr>) (speakers t)\<rparr>"
proof (cases "M = []")
  case True
  then show ?thesis by (simp add: relabel_def relabeled_id_def)
next
  case False
  then show ?thesis by (simp add: relabel_def relabel_segments_map relabel_speakers_map)
qed

lemma step_case: "step r m f = (case m of Inl e \<Rightarrow> Inl (e, r) | Inr x \<Rightarrow> f x)"
  by (cases m) auto

lemma process_meeting_transcript:
  assumes "process_audio_file c a (resolve_meeting_id env mid) = Inr t"
    and "llm_infer_speaker_names c t = Inr M"
  shows "transcript (process_meeting c env a mid) = Some (relabel M t)"
  using assms
  by (simp add: process_meeting_def process_meeting_try_def new_result_def step_case
      split: sum.splits)


text \<open>
  Claim C3. Let transcription give the transcript \<open>t\<close>, every segment speaker of which is
  among its speakers' identifiers, and let inference give the map \<open>M\<close>. Then the
  transcript of the result of \<^verbatim>\<open>process_meeting\<close> has the segments and the speakers of
  \<open>t\<close> with each identifier replaced by \<open>M[original]\<close> if the original is a key of \<open>M\<close>
  and left as it is otherwise (one lookup with the original identifier, never a second
  one with the new name); a segment whose label is not a key of \<open>M\<close> is unchanged; every
  segment speaker is still among the speakers' identifiers; the other fields of the
  transcript are unchanged.
\<close>

theorem relabel_consistent:
  assumes "process_audio_file c a (resolve_meeting_id env mid) = Inr t"
    and "llm_infer_speaker_names c t = Inr M"
    and "set (map speaker (segments t)) \<subseteq> set (map speaker_id (speakers t))"
  shows "\<exists>t'. transcript (process_meeting c env a mid) = Some t' \<and>
     segments t' = map (\<lambda>s. s\<lparr>speaker := relabeled_id M (speaker s)\<rparr>) (segments t) \<and>
     speakers t' = map (\<lambda>p. p\<lparr>speaker_id := relabeled_id M (speaker_id p)\<rparr>) (speakers t) \<and>
     (\<forall>i<length (segments t). map_of M (speaker (segments t ! i)) = None \<longrightarrow>
          segments t' ! i = segments t ! i) \<and>
     set (map speaker (segments t')) \<subseteq> set (map speaker_id (speakers t')) \<and>
     meeting_id t' = meeting_id t \<and> audio_url t' = audio_url t \<and>
     duration t' = duration t \<and> created_at t' = created_at t"
proof -
  let ?t' = "relabel M t"
  have 1: "transcript (process_meeting c env a mid) = Some ?t'"
    by (rule process_meeting_transcript [OF assms(1,2)])
  have 2: "segments ?t' = map (\<lambda>s. s\<lparr>speaker := relabeled_id M (speaker s)\<rparr>) (segments t)"
    and 3: "speakers ?t' = map (\<lambda>p. p\<lparr>speaker_id := relabeled_id M (speaker_id p)\<rparr>) (speakers t)"
    and 6: "meeting_id ?t' = meeting_id t \<and> audio_url ?t' = audio_url t \<and>
     duration ?t' = duration t \<and> created_at ?t' = created_at t"
    by (simp_all add: relabel_eq)
  have 4: "\<forall>i<length (segments t). map_of M (speaker (segments t ! i)) = None \<longrightarrow>
          segments ?t' ! i = segments t ! i"
    by (simp add: 2 relabeled_id_def)
  have "set (map speaker (segments ?t')) = relabeled_id M ` set (map speaker (segments t))"
    by (simp add: 2 image_image)
  moreover have "set (map speaker_id (speakers ?t')) = relabeled_id M ` set (map speaker_id (speakers t))"
    by (simp add: 3 image_image)
  ultimately have 5: "set (map speaker (segments ?t')) \<subseteq> set (map speaker_id (speakers ?t'))"
    using assms(3) by (metis image_mono)
  from 1 2 3 4 5 6 show ?thesis by blast
qed


lemma infer_colliding:
  \<open>infer_speaker_names scenario_lib t (Inr ''{"A": "B", "B": "C"}'') =
     Inr [(''A'', ''B''), (''B'', ''C'')]\<close>
proof -
  have \<open>extract_first_json_block (json_loads scenario_lib) ''{"A": "B", "B": "C"}'' =
      Inr (JObj [(''A'', JStr ''B''), (''B'', JStr ''C'')])\<close>
    by (rule extract_block_parsed [where b = \<open>''{"A": "B", "B": "C"}''\<close>])
       (simp_all add: first_balanced_block_def scenario_lib_def pylib_of_def json_loads_table_def)
  then show ?thesis by (simp add: infer_speaker_names_returns)
qed

text \<open>
  The property with the map \<^verbatim>\<open>{"A": "B", "B": "C"}\<close>, whose values collide with its
  keys: A becomes B and B becomes C.
\<close>

theorem relabel_consistent_witness:
  "map speaker (segments (the (transcript
      (process_meeting (agent scenario_lib colliding_services) scenario_env
         ''meeting.wav'' (Some ''m7''))))) = [''B'', ''C''] \<and>
   map speaker_id (speakers (the (transcript
      (process_meeting (agent scenario_lib colliding_services) scenario_env
         ''meeting.wav'' (Some ''m7''))))) = [''B'', ''C'']"
proof -
  let ?c = "agent scenario_lib colliding_services"
  let ?t = "scenario_transcript\<lparr>meeting_id := ''m7''\<rparr>"
  let ?M = "[(''A'', ''B''), (''B'', ''C'')]"
  have 1: "process_audio_file ?c ''meeting.wav'' (resolve_meeting_id scenario_env (Some ''m7'')) = Inr ?t"
    by (simp add: agent_def colliding_services_def scenario_services_def resolve_meeting_id_def)
  have 2: "llm_infer_speaker_names ?c ?t = Inr ?M"
    by (simp add: agent_def colliding_services_def scenario_services_def infer_colliding)
  have 3: "set (map speaker (segments ?t)) \<subseteq> set (map speaker_id (speakers ?t))"
    by (simp add: scenario_transcript_def)
  from relabel_consistent [OF 1 2 3] obtain t' where
    t': "transcript (process_meeting ?c scenario_env ''meeting.wav'' (Some ''m7'')) = Some t'"
    "segments t' = map (\<lambda>s. s\<lparr>speaker := relabeled_id ?M (speaker s)\<rparr>) (segments ?t)"
    "speakers t' = map (\<lambda>p. p\<lparr>speaker_id := relabeled_id ?M (speaker_id p)\<rparr>) (speakers ?t)"
    by blast
  show ?thesis
    by (simp add: t' scenario_transcript_def relabeled_id_def)
qed

lemma finish_fields:
  "transcript (finish env x) = transcript (case x of Inl (e, r) \<Rightarrow> r | Inr r \<Rightarrow> r)"
  "minutes (finish env x) = minutes (case x of Inl (e, r) \<Rightarrow> r | Inr r \<Rightarrow> r)"
  "calendar_events (finish env x) = calendar_events (case x of Inl (e, r) \<Rightarrow> r | Inr r \<Rightarrow> r)"
  "result_meeting_id (finish env x) = result_meeting_id (case x of Inl (e, r) \<Rightarrow> r | Inr r \<Rightarrow> r)"
  "processing_time (finish env x) = Some (clock_end env - clock_start env)"
  "status (finish env x) = (case x of Inl (e, r) \<Rightarrow> FAILED | Inr r \<Rightarrow> COMPLETED)"
  "error_message (finish env x) =
     (case x of Inl (e, r) \<Rightarrow> Some (str_exn e) | Inr r \<Rightarrow> error_message r)"
  by (cases x; auto)+

lemma terminal_finish:
  "terminal env (finish env x)"
  by (cases x) (auto simp add: terminal_def)

lemmas entry_defs =
  process_meeting_def process_meeting_try_def generate_minutes_only_def
  generate_minutes_only_try_def extract_events_only_def extract_events_only_try_def
  generate_transcript_only_def generate_transcript_only_try_def

text \<open>
  Claim C2. Every exception a stage raises is a value \<open>Inl e\<close> inside the \<^verbatim>\<open>try\<close> block
  of an entry point, and its handler turns it into a result: for every behaviour of the
  components, each of the four entry points returns a result that is completed or
  failed, with the elapsed time set and, when failed, with the error message set. When
  transcription raises, the result is failed with the message of the exception and no
  transcript, minutes or events. When a later stage raises, the result is failed with
  the message of that exception, and what the earlier stages produced is attached: the
  transcript (relabeled, once inference has returned), the minutes, the events.
\<close>

theorem entry_points_terminal:
  "terminal env (process_meeting c env a mid) \<and>
   terminal env (generate_minutes_only c env a mid) \<and>
   terminal env (extract_events_only c env a mid) \<and>
   terminal env (generate_transcript_only c env a mid) \<and>
   (\<forall>e. process_audio_file c a (resolve_meeting_id env mid) = Inl e \<longrightarrow>
      (\<forall>r \<in> {process_meeting c env a mid, generate_minutes_only c env a mid,
               extract_events_only c env a mid, generate_transcript_only c env a mid}.
         status r = FAILED \<and> error_message r = Some (str_exn e) \<and>
         transcript r = None \<and> minutes r = None \<and> calendar_events r = [])) \<and>
   (\<forall>t. process_audio_file c a (resolve_meeting_id env mid) = Inr t \<longrightarrow>
      transcript (generate_transcript_only c env a mid) = Some t \<and>
      status (generate_transcript_only c env a mid) = COMPLETED \<and>
      transcript (generate_minutes_only c env a mid) = Some t \<and>
      (\<forall>e. llm_generate_meeting_minutes c t = Inl e \<longrightarrow>
         status (generate_minutes_only c env a mid) = FAILED \<and>
         error_message (generate_minutes_only c env a mid) = Some (str_exn e)) \<and>
      (\<forall>m. llm_generate_meeting_minutes c t = Inr m \<longrightarrow>
         status (generate_minutes_only c env a mid) = COMPLETED \<and>
         minutes (generate_minutes_only c env a mid) = Some m) \<and>
      transcript (extract_events_only c env a mid) = Some t \<and>
      (\<forall>e. llm_extract_calendar_events c t None = Inl e \<longrightarrow>
         status (extract_events_only c env a mid) = FAILED \<and>
         error_message (extract_events_only c env a mid) = Some (str_exn e)) \<and>
      (\<forall>evs. llm_extract_calendar_events c t None = Inr evs \<longrightarrow>
         calendar_events (extract_events_only c env a mid) = evs \<and>
         (\<forall>e. create_if_any c evs = Inl e \<longrightarrow>
            status (extract_events_only c env a mid) = FAILED \<and>
            error_message (extract_events_only c env a mid) = Some (str_exn e))) \<and>
      (\<forall>e. llm_infer_speaker_names c t = Inl e \<longrightarrow>
         status (process_meeting c env a mid) = FAILED \<and>
         error_message (process_meeting c env a mid) = Some (str_exn e) \<and>
         transcript (process_meeting c env a mid) = Some t) \<and>
      (\<forall>M. llm_infer_speaker_names c t = Inr M \<longrightarrow>
         transcript (process_meeting c env a mid) = Some (relabel M t) \<and>
         (\<forall>e. llm_generate_meeting_minutes c (relabel M t) = Inl e \<longrightarrow>
            status (process_meeting c env a mid) = FAILED \<and>
            error_message (process_meeting c env a mid) = Some (str_exn e) \<and>
            minutes (process_meeting c env a mid) = None) \<and>
         (\<forall>m. llm_generate_meeting_minutes c (relabel M t) = Inr m \<longrightarrow>
            minutes (process_meeting c env a mid) = Some m \<and>
            (\<forall>e. llm_extract_calendar_events c (relabel M t) (Some m) = Inl e \<longrightarrow>
               status (process_meeting c env a mid) = FAILED \<and>
               error_message (process_meeting c env a mid) = Some (str_exn e)) \<and>
            (\<forall>evs. llm_extract_calendar_events c (relabel M t) (Some m) = Inr evs \<longrightarrow>
               calendar_events (process_meeting c env a mid) = evs \<and>
               (\<forall>e. create_if_any c evs = Inl e \<longrightarrow>
                  status (process_meeting c env a mid) = FAILED \<and>
                  error_message (process_meeting c env a mid) = Some (str_exn e)) \<and>
               (\<forall>u. create_if_any c evs = Inr u \<longrightarrow>
                  status (process_meeting c env a mid) = COMPLETED)))))"
proof (intro conjI allI impI ballI)
  show "terminal env (process_meeting c env a mid)"
    "terminal env (generate_minutes_only c env a mid)"
    "terminal env (extract_events_only c env a mid)"
    "terminal env (generate_transcript_only c env a mid)"
    by (simp_all add: entry_defs(1,3,5,7) terminal_finish)
qed (auto simp add: entry_defs new_result_def step_case finish_fields split: sum.splits)


lemma infer_scenario:
  \<open>infer_speaker_names scenario_lib t (Inr ''Here you go: {"A": "John"}'') =
     Inr [(''A'', ''John'')]\<close>
proof -
  have \<open>extract_first_json_block (json_loads scenario_lib) ''Here you go: {"A": "John"}'' =
      Inr (JObj [(''A'', JStr ''John'')])\<close>
    by (rule extract_block_parsed [where b = \<open>''{"A": "John"}''\<close>])
       (simp_all add: first_balanced_block_def scenario_lib_def pylib_of_def json_loads_table_def)
  then show ?thesis by (simp add: infer_speaker_names_returns)
qed

text \<open>
  The property when the completion service fails on the minutes prompt: the result is
  failed, with the message, the elapsed time and the relabeled transcript.
\<close>

theorem entry_points_terminal_witness:
  "status (process_meeting (agent scenario_lib minutes_down_services) scenario_env
            ''meeting.wav'' (Some ''m7'')) = FAILED \<and>
   error_message (process_meeting (agent scenario_lib minutes_down_services) scenario_env
            ''meeting.wav'' (Some ''m7'')) = Some ''Ollama API error: 500'' \<and>
   processing_time (process_meeting (agent scenario_lib minutes_down_services) scenario_env
            ''meeting.wav'' (Some ''m7'')) = Some 12 \<and>
   minutes (process_meeting (agent scenario_lib minutes_down_services) scenario_env
            ''meeting.wav'' (Some ''m7'')) = None \<and>
   map speaker_id (speakers (the (transcript
      (process_meeting (agent scenario_lib minutes_down_services) scenario_env
            ''meeting.wav'' (Some ''m7''))))) = [''John'', ''B'']"
proof -
  let ?c = "agent scenario_lib minutes_down_services"
  let ?t = "scenario_transcript\<lparr>meeting_id := ''m7''\<rparr>"
  let ?M = "[(''A'', ''John'')]"
  let ?R = "process_meeting ?c scenario_env ''meeting.wav'' (Some ''m7'')"
  have 1: "process_audio_file ?c ''meeting.wav'' (resolve_meeting_id scenario_env (Some ''m7'')) = Inr ?t"
    by (simp add: agent_def minutes_down_services_def scenario_services_def
        resolve_meeting_id_def)
  have 2: "llm_infer_speaker_names ?c ?t = Inr ?M"
    by (simp add: agent_def minutes_down_services_def scenario_services_def infer_scenario)
  have 3: "llm_generate_meeting_minutes ?c (relabel ?M ?t) = Inl (OtherError ''Ollama API error: 500'')"
    by (simp add: agent_def minutes_down_services_def scenario_services_def
        generate_meeting_minutes_def)
  note inst = entry_points_terminal [of scenario_env ?c "''meeting.wav''" "Some ''m7''"]
  from inst have "terminal scenario_env ?R" by blast
  then have time: "processing_time ?R = Some 12"
    by (simp add: terminal_def scenario_env_def)
  from inst 1 2 have tr: "transcript ?R = Some (relabel ?M ?t)" by blast
  from inst 1 2 3 have f: "status ?R = FAILED \<and>
      error_message ?R = Some (str_exn (OtherError ''Ollama API error: 500'')) \<and>
      minutes ?R = None"
    by blast
  have "map speaker_id (speakers (relabel ?M ?t)) = [''John'', ''B'']"
    by (simp add: relabel_eq scenario_transcript_def relabeled_id_def)
  with time tr f show ?thesis by simp
qed

text \<open>
  Claim C10. In \<^verbatim>\<open>generate_minutes_only\<close> and \<^verbatim>\<open>extract_events_only\<close> the transcript
  that transcription gave is the one the result carries and the one minutes generation,
  respectively event extraction, is applied to; the inference of speaker names is not
  consulted: replacing it by any other function leaves the two results unchanged.
\<close>

theorem only_modes_pass_transcript_unchanged:
  assumes "process_audio_file c a (resolve_meeting_id env mid) = Inr t"
  shows "transcript (generate_minutes_only c env a mid) = Some t \<and>
     minutes (generate_minutes_only c env a mid) =
       (case llm_generate_meeting_minutes c t of Inr m \<Rightarrow> Some m | Inl e \<Rightarrow> None) \<and>
     transcript (extract_events_only c env a mid) = Some t \<and>
     calendar_events (extract_events_only c env a mid) =
       (case llm_extract_calendar_events c t None of Inr evs \<Rightarrow> evs | Inl e \<Rightarrow> []) \<and>
     generate_minutes_only (c\<lparr>llm_infer_speaker_names := f\<rparr>) env a mid =
       generate_minutes_only c env a mid \<and>
     extract_events_only (c\<lparr>llm_infer_speaker_names := f\<rparr>) env a mid =
       extract_events_only c env a mid"
  using assms
  by (auto simp add: entry_defs new_result_def step_case finish_fields create_if_any_def
      split: sum.splits)

text \<open>
  The property in the scenario: the labels stay A and B in the two modes, where the full
  pipeline has John and B.
\<close>

theorem only_modes_pass_transcript_unchanged_witness:
  "map speaker_id (speakers (the (transcript
      (generate_minutes_only (agent scenario_lib scenario_services) scenario_env
         ''meeting.wav'' (Some ''m7''))))) = [''A'', ''B''] \<and>
   map speaker (segments (the (transcript
      (generate_minutes_only (agent scenario_lib scenario_services) scenario_env
         ''meeting.wav'' (Some ''m7''))))) = [''A'', ''B''] \<and>
   map_option participants
      (minutes (generate_minutes_only (agent scenario_lib scenario_services) scenario_env
         ''meeting.wav'' (Some ''m7''))) = Some [''A'', ''B''] \<and>
   map speaker_id (speakers (the (transcript
      (extract_events_only (agent scenario_lib scenario_services) scenario_env
         ''meeting.wav'' (Some ''m7''))))) = [''A'', ''B''] \<and>
   map speaker_id (speakers (the (transcript
      (process_meeting (agent scenario_lib scenario_services) scenario_env
         ''meeting.wav'' (Some ''m7''))))) = [''John'', ''B'']"
proof -
  let ?c = "agent scenario_lib scenario_services"
  let ?t = "scenario_transcript\<lparr>meeting_id := ''m7''\<rparr>"
  have 1: "process_audio_file ?c ''meeting.wav'' (resolve_meeting_id scenario_env (Some ''m7'')) = Inr ?t"
    by (simp add: agent_def scenario_services_def resolve_meeting_id_def)
  have x: "extract_first_json_block (json_loads scenario_lib) ''- Meet Thursday at 2pm'' =
      Inl (ValueError ''No JSON object found in response.'')"
    by (simp add: extract_first_json_block_def extract_traced_char)
  have d: "- 999999999 \<le> duration ?t div 86400000" "duration ?t div 86400000 \<le> 999999999"
    by (simp_all add: scenario_transcript_def)
  have g: "llm_generate_meeting_minutes ?c ?t =
      build_minutes scenario_lib ?t (fallback_parsing scenario_lib ''- Meet Thursday at 2pm'')"
    by (simp add: agent_def scenario_services_def generate_meeting_minutes_def x)
  have p: "map_option participants
      (case llm_generate_meeting_minutes ?c ?t of Inr m \<Rightarrow> Some m | Inl e \<Rightarrow> None)
      = Some [''A'', ''B'']"
    unfolding g build_minutes_fallback [OF d]
    by (simp add: scenario_transcript_def)
  have 2: "llm_infer_speaker_names ?c ?t = Inr [(''A'', ''John'')]"
    by (simp add: agent_def scenario_services_def infer_scenario)
  have pm: "map speaker_id (speakers (the (transcript
      (process_meeting ?c scenario_env ''meeting.wav'' (Some ''m7''))))) = [''John'', ''B'']"
    by (simp add: process_meeting_transcript [OF 1 2] relabel_eq scenario_transcript_def
        relabeled_id_def)
  from only_modes_pass_transcript_unchanged [OF 1] p pm show ?thesis
    by (simp add: scenario_transcript_def)
qed

end
